theory Spec2Isabelle
  imports Main "HOL-Library.Sublist"
begin

section \<open>The demo launcher\<close>

text \<open>
  The launcher script (second file of \<^verbatim>\<open>src/unnamed/part_000\<close>) runs only under
  \<^verbatim>\<open>if __name__ == '__main__'\<close>. It reads \<^verbatim>\<open>sys.argv\<close>, asks
  \<^verbatim>\<open>pkgutil.walk_packages\<close> for the demo modules, and either prints a usage
  message or hands control to \<^verbatim>\<open>runpy.run_module\<close>. Every path ends in an
  exception: \<^verbatim>\<open>sys.exit\<close> raises \<^verbatim>\<open>SystemExit\<close>.

  What lies outside the script is a parameter of the model (\<open>world\<close>): what
  \<^verbatim>\<open>pkgutil.walk_packages\<close> does below \<^verbatim>\<open>pymordemos.__path__\<close> (the
  module names it yields and the exception it may end with), the file each module is
  loaded from, and what a demo module does when it is run.
\<close>

datatype py_exc = SystemExit int | IndexError | ValueError | Other string

datatype run_result = Returned | Raised py_exc

record world =
  found :: "string list"
  walk_error :: "py_exc option"
  origin :: "string \<Rightarrow> string"
  demo :: "string \<Rightarrow> string list \<Rightarrow> run_result"

text \<open>
  One call of \<^verbatim>\<open>runpy.run_module(module, init_globals=None, run_name=...,
  alter_sys=...)\<close>: its arguments, \<^verbatim>\<open>sys.argv\<close> at the moment of the call, and
  \<^verbatim>\<open>sys.argv\<close> as the module's code finds it.
\<close>

record run_call =
  module :: string
  run_name :: string
  alter_sys :: bool
  argv_at_call :: "string list"
  argv_in_module :: "string list"

record result =
  stdout :: "string list"
  calls :: "run_call list"
  final :: py_exc

definition nl :: char where
  "nl = CHR 0x0A"

text \<open>\<^verbatim>\<open>sep.join(xs)\<close> of Python.\<close>

fun join :: "'a list \<Rightarrow> 'a list list \<Rightarrow> 'a list" where
  "join sep [] = []"
| "join sep [x] = x"
| "join sep (x # y # ys) = x @ sep @ join sep (y # ys)"

text \<open>\<^verbatim>\<open>xs.index(x)\<close> of Python: the first position of \<open>x\<close>, ValueError when absent.\<close>

fun index :: "'a list \<Rightarrow> 'a \<Rightarrow> py_exc + nat" where
  "index [] x = Inl ValueError"
| "index (y # ys) x =
     (if y = x then Inr 0
      else case index ys x of Inl e \<Rightarrow> Inl e | Inr i \<Rightarrow> Inr (Suc i))"

text \<open>
  \<^verbatim>\<open>pymordemos.__name__\<close> is the name the package was imported under.
  \<^verbatim>\<open>pkgutil.walk_packages(path, prefix)\<close> is a generator of the standard
  library. For every module found below \<open>path\<close> it yields a triple whose middle
  component is the prefix followed by the module's name; a module that is a package is
  imported after it has been yielded, to walk its own path. The launcher passes no
  \<^verbatim>\<open>onerror\<close>: an \<^verbatim>\<open>ImportError\<close> of such an import is skipped, any
  other exception leaves the generator, and with it the loop and the script. So a walk
  is the list of the names yielded and, when an import raised, the exception the
  generator ends with (\<open>found\<close> and \<open>walk_error\<close> of the world).
\<close>

definition pymordemos_name :: string where
  "pymordemos_name = ''pymordemos''"

definition walk_packages :: "world \<Rightarrow> string \<Rightarrow> string list \<times> py_exc option" where
  "walk_packages w pre = (map (\<lambda>n. pre @ n) (found w), walk_error w)"

text \<open>
  \<^verbatim>\<open>
  modules = []
  shorts = []
  for _, module_name, _ in pkgutil.walk_packages(pymordemos.__path__, pymordemos.__name__ + '.'):
      short = module_name[len('pymordemos.'):]
      modules.append(module_name)
      shorts.append(short)
  \<close>
  The loop body runs once for every name yielded, in the order of the walk; an
  exception of the generator ends the loop, and the script, with that exception.
\<close>

fun discover ::
  "string list \<times> py_exc option \<Rightarrow> string list \<Rightarrow> string list \<Rightarrow>
     py_exc + string list \<times> string list" where
  "discover ([], None) modules shorts = Inr (modules, shorts)"
| "discover ([], Some e) modules shorts = Inl e"
| "discover (module_name # rest, err) modules shorts =
     (let short = drop (length ''pymordemos.'') module_name
      in discover (rest, err) (modules @ [module_name]) (shorts @ [short]))"

definition discovered :: "world \<Rightarrow> py_exc + string list \<times> string list" where
  "discovered w = discover (walk_packages w (pymordemos_name @ ''.'')) [] []"

text \<open>
  \<^verbatim>\<open>runpy.run_module\<close> belongs to the Python standard library. Its documented
  contract for \<^verbatim>\<open>alter_sys=True\<close>: for the duration of the run
  \<^verbatim>\<open>sys.argv[0]\<close> holds the file the module was loaded from.
\<close>

definition run_module_argv :: "string \<Rightarrow> bool \<Rightarrow> string list \<Rightarrow> string list" where
  "run_module_argv file alter argv = (if alter then argv[0 := file] else argv)"

text \<open>
  \<^verbatim>\<open>
  def _run(module):
      # only need to remove the modname from args, rest is automatic
      del sys.argv[1]
      runpy.run_module(module, init_globals=None, run_name='__main__', alter_sys=True)
      sys.exit(0)
  \<close>
  \<^verbatim>\<open>del sys.argv[1]\<close> raises IndexError on a list shorter than two.
\<close>

definition run :: "world \<Rightarrow> string list \<Rightarrow> string list \<Rightarrow> string \<Rightarrow> result" where
  "run w argv out m =
     (if length argv < 2 then \<lparr>stdout = out, calls = [], final = IndexError\<rparr>
      else
        let argv' = take 1 argv @ drop 2 argv;
            seen = run_module_argv (origin w m) True argv';
            c = \<lparr>module = m, run_name = ''__main__'', alter_sys = True,
                 argv_at_call = argv', argv_in_module = seen\<rparr>
        in case demo w m seen of
             Raised e \<Rightarrow> \<lparr>stdout = out, calls = [c], final = e\<rparr>
           | Returned \<Rightarrow> \<lparr>stdout = out, calls = [c], final = SystemExit 0\<rparr>)"

text \<open>
  The usage text, \<open>argv0\<close> standing for \<^verbatim>\<open>sys.argv[0]\<close>; \<^verbatim>\<open>print\<close> writes
  it, then \<^verbatim>\<open>sys.exit(0)\<close>.
\<close>

definition usage_msg :: "string \<Rightarrow> string list \<Rightarrow> string" where
  "usage_msg argv0 shorts =
     ''Usage:'' @ [nl] @
     ''    '' @ argv0 @ '' DEMO_NAME | -h [DEMO_OPTIONS]'' @ [nl] @
     [nl] @
     ''Arguments:'' @ [nl] @
     ''    -h           this message'' @ [nl] @
     ''    DEMO_NAME    select one from these: '' @ join '','' shorts @ [nl] @
     ''    DEMO_OPTIONS any arguments for the demo, including -h for detailed help'' @ [nl]"

definition usage :: "string \<Rightarrow> string list \<Rightarrow> string list \<Rightarrow> result" where
  "usage argv0 shorts out =
     \<lparr>stdout = out @ [usage_msg argv0 shorts], calls = [], final = SystemExit 0\<rparr>"

text \<open>
  The body of the script. Building the argument parser evaluates
  \<^verbatim>\<open>sys.argv[0]\<close> in its epilog, which raises IndexError on an empty
  \<^verbatim>\<open>sys.argv\<close>; the parser is not used afterwards. The discovery loop comes
  next: an exception that leaves it ends the script with nothing printed and no module
  run.
  \<^verbatim>\<open>
  if len(sys.argv) < 2:
      usage()
  if sys.argv[1] in shorts:
      _run(modules[shorts.index(sys.argv[1])])
  usage()
  \<close>
\<close>

definition launcher :: "world \<Rightarrow> string list \<Rightarrow> result" where
  "launcher w argv =
     (case argv of
        [] \<Rightarrow> \<lparr>stdout = [], calls = [], final = IndexError\<rparr>
      | argv0 # _ \<Rightarrow>
          (case discovered w of
             Inl e \<Rightarrow> \<lparr>stdout = [], calls = [], final = e\<rparr>
           | Inr (modules, shorts) \<Rightarrow>
               if length argv < 2 then usage argv0 shorts []
               else if argv ! 1 \<in> set shorts then
                 (case index shorts (argv ! 1) of
                    Inl e \<Rightarrow> \<lparr>stdout = [], calls = [], final = e\<rparr>
                  | Inr i \<Rightarrow>
                      if i < length modules then run w argv [] (modules ! i)
                      else \<lparr>stdout = [], calls = [], final = IndexError\<rparr>)
               else usage argv0 shorts []))"

subsection \<open>Concrete installations\<close>

text \<open>
  \<open>demo_world\<close>: two demo modules, both of which return. \<open>strict_world\<close>: the same
  modules, but a demo that is given no option ends with \<^verbatim>\<open>sys.exit(2)\<close>, as an
  option parser does on a missing argument. \<open>broken_world\<close>: next to the module
  \<^verbatim>\<open>burgers\<close> there is a subpackage \<^verbatim>\<open>broken\<close> whose import raises
  \<^verbatim>\<open>ValueError\<close>.
\<close>

definition demo_world :: world where
  "demo_world =
     \<lparr>found = [''burgers'', ''thermalblock''],
      walk_error = None,
      origin = (\<lambda>m. ''/site-packages/'' @
                  map (\<lambda>c. if c = CHR ''.'' then CHR ''/'' else c) m @ ''.py''),
      demo = (\<lambda>m argv. Returned)\<rparr>"

definition strict_world :: world where
  "strict_world =
     \<lparr>found = [''burgers'', ''thermalblock''],
      walk_error = None,
      origin = (\<lambda>m. ''/site-packages/'' @
                  map (\<lambda>c. if c = CHR ''.'' then CHR ''/'' else c) m @ ''.py''),
      demo = (\<lambda>m argv. if length argv < 2 then Raised (SystemExit 2) else Returned)\<rparr>"

definition broken_world :: world where
  "broken_world =
     \<lparr>found = [''burgers'', ''broken''],
      walk_error = Some ValueError,
      origin = (\<lambda>m. ''/site-packages/'' @
                  map (\<lambda>c. if c = CHR ''.'' then CHR ''/'' else c) m @ ''.py''),
      demo = (\<lambda>m argv. Returned)\<rparr>"

section \<open>The wheel-building script\<close>

text \<open>
  The shell script (first file of \<^verbatim>\<open>src/unnamed/part_000\<close>) runs under
  \<^verbatim>\<open>set -e\<close>: the first command that fails ends the script. After
  \<^verbatim>\<open>set -u\<close> the expansion of an unset variable ends it as well.

  A command is the list of words the shell executes. The state of the model is the
  content of \<^verbatim>\<open>setup.cfg\<close> (\<open>None\<close> when the file is missing) and the trace
  of the commands executed so far. Outside the script, and so parameters of the model:
  the environment, the directory \<^verbatim>\<open>pwd -P\<close> prints in the command substitution
  that sets \<^verbatim>\<open>PYMOR_ROOT\<close>, the output of \<^verbatim>\<open>id -u\<close>, pathname expansion,
  and which commands succeed (\<open>ok n c\<close>: the command \<open>c\<close>, executed as number \<open>n\<close>,
  succeeds). Of the script's commands only \<^verbatim>\<open>sed\<close> names \<^verbatim>\<open>setup.cfg\<close>;
  what the programs started by docker do inside their containers is not part of the
  script.
\<close>

record sh_world =
  env :: "string \<Rightarrow> string option"
  pymor_root :: string
  uid :: string
  glob :: "string \<Rightarrow> string list"
  ok :: "nat \<Rightarrow> string list \<Rightarrow> bool"

record sh_state =
  setup_cfg :: "string option"
  trace :: "string list list"

datatype stop = Unbound string | Failed "string list"

subsection \<open>The sed command\<close>

text \<open>
  \<^verbatim>\<open>sed -i -e 's;style\ \=\ pep440;style\ \=\ ci_wheel_builder;g' setup.cfg\<close>

  The regular expression and the replacement consist of ordinary characters, some
  written with a backslash before them; \<open>unescape\<close> removes those backslashes. The
  expression holds no newline, so replacing line by line, as sed does, is replacing in
  the whole text. \<open>subst_all\<close> is the \<^verbatim>\<open>g\<close> flag: from left to right, an occurrence
  of the pattern is replaced and the scan goes on behind it.
\<close>

definition bs :: char where
  "bs = CHR 0x5C"

fun unescape :: "string \<Rightarrow> string" where
  "unescape (c # d # ds) = (if c = bs then d # unescape ds else c # unescape (d # ds))"
| "unescape cs = cs"

function subst_all :: "'a list \<Rightarrow> 'a list \<Rightarrow> 'a list \<Rightarrow> 'a list" where
  "subst_all pat rep [] = []"
| "subst_all pat rep (c # cs) =
     (if pat \<noteq> [] \<and> prefix pat (c # cs)
      then rep @ subst_all pat rep (drop (length pat) (c # cs))
      else c # subst_all pat rep cs)"
  by pat_completeness auto
termination
  by (relation "measure (\<lambda>(pat, rep, cfg). length cfg)") (auto simp: neq_Nil_conv)

text \<open>
  The number of places of a text where the pattern begins, overlapping ones included.
\<close>

fun occurrences :: "'a list \<Rightarrow> 'a list \<Rightarrow> nat" where
  "occurrences pat [] = 0"
| "occurrences pat (c # cs) = (if prefix pat (c # cs) then 1 else 0) + occurrences pat cs"

definition sed_regexp :: string where
  "sed_regexp = ''style'' @ [bs] @ '' '' @ [bs] @ ''='' @ [bs] @ '' pep440''"

definition sed_replacement :: string where
  "sed_replacement = ''style'' @ [bs] @ '' '' @ [bs] @ ''='' @ [bs] @ '' ci_wheel_builder''"

definition sed_script :: string where
  "sed_script = ''s;'' @ sed_regexp @ '';'' @ sed_replacement @ '';g''"

definition sed_cmd :: "string list" where
  "sed_cmd = [''sed'', ''-i'', ''-e'', sed_script, ''setup.cfg'']"

subsection \<open>Expansion and execution\<close>

text \<open>
  An unquoted expansion is split into fields at blanks, tabs and newlines; a field with
  a pattern character undergoes pathname expansion (\<open>glob\<close>). The literal text next to
  the expansions of the script holds no blank, so splitting the whole word is the same.
  \<open>param\<close> is \<^verbatim>\<open>${VAR}\<close> before \<^verbatim>\<open>set -u\<close>: an unset variable expands
  to the empty string.
\<close>

definition is_ifs :: "char \<Rightarrow> bool" where
  "is_ifs c = (c = CHR '' '' \<or> c = CHR 0x09 \<or> c = CHR 0x0A)"

fun split_ifs :: "string \<Rightarrow> string \<Rightarrow> string list" where
  "split_ifs cur [] = (if cur = [] then [] else [cur])"
| "split_ifs cur (c # cs) =
     (if is_ifs c then (if cur = [] then split_ifs [] cs else cur # split_ifs [] cs)
      else split_ifs (cur @ [c]) cs)"

definition has_pattern :: "string \<Rightarrow> bool" where
  "has_pattern x = list_ex (\<lambda>c. c = CHR ''*'' \<or> c = CHR ''?'' \<or> c = CHR ''['') x"

definition words_of :: "sh_world \<Rightarrow> string \<Rightarrow> string list" where
  "words_of w s = concat (map (\<lambda>x. if has_pattern x then glob w x else [x]) (split_ifs [] s))"

definition param :: "string option \<Rightarrow> string" where
  "param v = (case v of None \<Rightarrow> [] | Some s \<Rightarrow> s)"

text \<open>
  Executing a command appends it to the trace. \<^verbatim>\<open>sed\<close> fails on a missing file
  and otherwise, like every other command, when the world says so; when it succeeds
  it rewrites \<^verbatim>\<open>setup.cfg\<close>. A failed command ends the script
  (\<^verbatim>\<open>set -e\<close>): \<open>and_then\<close> runs what follows only after a success.
\<close>

definition effect :: "string list \<Rightarrow> sh_state \<Rightarrow> sh_state" where
  "effect c s =
     (if c = sed_cmd
      then s\<lparr>setup_cfg := map_option (subst_all (unescape sed_regexp) (unescape sed_replacement))
                              (setup_cfg s)\<rparr>
      else s)"

definition succeeds :: "sh_world \<Rightarrow> string list \<Rightarrow> sh_state \<Rightarrow> bool" where
  "succeeds w c s =
     (if c = sed_cmd then setup_cfg s \<noteq> None \<and> ok w (length (trace s)) c
      else ok w (length (trace s)) c)"

definition exec :: "sh_world \<Rightarrow> string list \<Rightarrow> sh_state \<Rightarrow> sh_state \<times> stop option" where
  "exec w c s =
     (if succeeds w c s then ((effect c s)\<lparr>trace := trace s @ [c]\<rparr>, None)
      else (s\<lparr>trace := trace s @ [c]\<rparr>, Some (Failed c)))"

definition and_then ::
  "sh_state \<times> stop option \<Rightarrow> (sh_state \<Rightarrow> sh_state \<times> stop option) \<Rightarrow> sh_state \<times> stop option" where
  "and_then r f = (case r of (s, None) \<Rightarrow> f s | (s, Some e) \<Rightarrow> (s, Some e))"

subsection \<open>The script\<close>

text \<open>
  \<^verbatim>\<open>
  docker pull ${BUILDER_IMAGE} 1> /dev/null
  docker run --rm  -t -e LOCAL_USER_ID=$(id -u)  \
      -v ${BUILDER_WHEELHOUSE}:/io/wheelhouse \
      -v ${PYMOR_ROOT}:/io/pymor ${BUILDER_IMAGE} /usr/local/bin/build-wheels.sh
  cp ${PYMOR_ROOT}/.ci/docker/deploy_checks/Dockerfile ${BUILDER_WHEELHOUSE}
  for os in ${TEST_OS} ; do
      docker build --build-arg tag=${os} ${BUILDER_WHEELHOUSE}
  done
  \<close>
\<close>

definition docker_pull :: "sh_world \<Rightarrow> string \<Rightarrow> string list" where
  "docker_pull w builder_image = [''docker'', ''pull''] @ words_of w builder_image"

definition docker_run :: "sh_world \<Rightarrow> string \<Rightarrow> string \<Rightarrow> string list" where
  "docker_run w builder_wheelhouse builder_image =
     [''docker'', ''run'', ''--rm'', ''-t'', ''-e''] @ words_of w (''LOCAL_USER_ID='' @ uid w) @
     [''-v''] @ words_of w (builder_wheelhouse @ '':/io/wheelhouse'') @
     [''-v''] @ words_of w (pymor_root w @ '':/io/pymor'') @
     words_of w builder_image @ [''/usr/local/bin/build-wheels.sh'']"

definition cp_dockerfile :: "sh_world \<Rightarrow> string \<Rightarrow> string list" where
  "cp_dockerfile w builder_wheelhouse =
     [''cp''] @ words_of w (pymor_root w @ ''/.ci/docker/deploy_checks/Dockerfile'') @
     words_of w builder_wheelhouse"

definition docker_build :: "sh_world \<Rightarrow> string \<Rightarrow> string \<Rightarrow> string list" where
  "docker_build w builder_wheelhouse os =
     [''docker'', ''build'', ''--build-arg''] @ words_of w (''tag='' @ os) @
     words_of w builder_wheelhouse"

fun build_loop :: "sh_world \<Rightarrow> string \<Rightarrow> string list \<Rightarrow> sh_state \<Rightarrow> sh_state \<times> stop option" where
  "build_loop w builder_wheelhouse [] s = (s, None)"
| "build_loop w builder_wheelhouse (os # rest) s =
     (case exec w (docker_build w builder_wheelhouse os) s of
        (s', None) \<Rightarrow> build_loop w builder_wheelhouse rest s'
      | (s', Some e) \<Rightarrow> (s', Some e))"

text \<open>
  Lines 5 to 7, before \<^verbatim>\<open>set -u\<close>:
  \<^verbatim>\<open>
  if [[ "x${CI_COMMIT_TAG}" == "x" ]] ; then
      sed -i -e 's;style\ \=\ pep440;style\ \=\ ci_wheel_builder;g' setup.cfg
  fi
  \<close>
\<close>

definition set_version_style :: "sh_world \<Rightarrow> sh_state \<Rightarrow> sh_state \<times> stop option" where
  "set_version_style w s =
     (if ''x'' @ param (env w ''CI_COMMIT_TAG'') = ''x'' then exec w sed_cmd s else (s, None))"

text \<open>
  Lines 9 to 28, after \<^verbatim>\<open>set -u\<close>. The assignment of \<^verbatim>\<open>PYMOR_ROOT\<close> has the
  exit status of its command substitution, which is that of \<^verbatim>\<open>pwd -P\<close>, the
  last command in it; the trace records that command. \<^verbatim>\<open>set -x\<close> only prints.
\<close>

definition build_wheels :: "sh_world \<Rightarrow> sh_state \<Rightarrow> sh_state \<times> stop option" where
  "build_wheels w s =
     (case env w ''SHARED_PATH'' of
       None \<Rightarrow> (s, Some (Unbound ''SHARED_PATH''))
     | Some builder_wheelhouse \<Rightarrow>
     and_then (exec w [''pwd'', ''-P''] s) (\<lambda>s.
     and_then (exec w [''cd'', pymor_root w] s) (\<lambda>s.
     and_then (exec w ([''mkdir'', ''-p''] @ words_of w builder_wheelhouse) s) (\<lambda>s.
     case env w ''PYVER'' of
       None \<Rightarrow> (s, Some (Unbound ''PYVER''))
     | Some pyver \<Rightarrow>
     let builder_image = ''pymor/wheelbuilder:py'' @ pyver in
     and_then (exec w (docker_pull w builder_image) s) (\<lambda>s.
     and_then (exec w (docker_run w builder_wheelhouse builder_image) s) (\<lambda>s.
     and_then (exec w (cp_dockerfile w builder_wheelhouse) s) (\<lambda>s.
     case env w ''TEST_OS'' of
       None \<Rightarrow> (s, Some (Unbound ''TEST_OS''))
     | Some test_os \<Rightarrow> build_loop w builder_wheelhouse (words_of w test_os) s)))))))"

definition ci_script :: "sh_world \<Rightarrow> sh_state \<Rightarrow> sh_state \<times> stop option" where
  "ci_script w s0 = and_then (set_version_style w s0) (build_wheels w)"

subsection \<open>The script as a list of commands\<close>

text \<open>
  With the three variables set, the script is a list of commands executed in order up
  to the first failure: \<open>pipeline\<close> is that list, \<open>run_cmds\<close> executes a list.
  \<open>untouched\<close> relates two states with the same \<^verbatim>\<open>setup.cfg\<close> and the same
  executions of \<^verbatim>\<open>sed\<close>.
\<close>

fun run_cmds :: "sh_world \<Rightarrow> string list list \<Rightarrow> sh_state \<Rightarrow> sh_state \<times> stop option" where
  "run_cmds w [] s = (s, None)"
| "run_cmds w (c # cs) s =
     (case exec w c s of
        (s', None) \<Rightarrow> run_cmds w cs s'
      | (s', Some e) \<Rightarrow> (s', Some e))"

definition pipeline :: "sh_world \<Rightarrow> string \<Rightarrow> string \<Rightarrow> string \<Rightarrow> string list list" where
  "pipeline w builder_wheelhouse pyver test_os =
     (if param (env w ''CI_COMMIT_TAG'') = [] then [sed_cmd] else []) @
     [[''pwd'', ''-P''],
      [''cd'', pymor_root w],
      [''mkdir'', ''-p''] @ words_of w builder_wheelhouse,
      docker_pull w (''pymor/wheelbuilder:py'' @ pyver),
      docker_run w builder_wheelhouse (''pymor/wheelbuilder:py'' @ pyver),
      cp_dockerfile w builder_wheelhouse] @
     map (docker_build w builder_wheelhouse) (words_of w test_os)"

definition untouched :: "sh_state \<Rightarrow> sh_state \<Rightarrow> bool" where
  "untouched s s' =
     (setup_cfg s' = setup_cfg s \<and>
      filter (\<lambda>c. c = sed_cmd) (trace s') = filter (\<lambda>c. c = sed_cmd) (trace s))"

subsection \<open>A concrete run\<close>

text \<open>A world where \<^verbatim>\<open>CI_COMMIT_TAG\<close> is unset and every command succeeds.\<close>

definition ci_world :: sh_world where
  "ci_world =
     \<lparr>env = [''SHARED_PATH'' \<mapsto> ''/shared/wheels'', ''PYVER'' \<mapsto> ''3.7'',
              ''TEST_OS'' \<mapsto> ''debian_buster  centos_8''],
      pymor_root = ''/builds/pymor'',
      uid = ''1000'',
      glob = (\<lambda>x. [x]),
      ok = (\<lambda>n c. True)\<rparr>"

definition ci_start :: sh_state where
  "ci_start = \<lparr>setup_cfg = Some ''[versioneer] style = pep440 x'', trace = []\<rparr>"

section \<open>The heat-equation notebook\<close>

text \<open>
  \<^verbatim>\<open>src/notebooks/heat.ipynb\<close> is a straight sequence of calls into numerical
  libraries. The libraries are not interpreted: a value is the expression that
  produced it, with every name the notebook has assigned replaced by its value
  (\<open>Name\<close> is left for the names of modules, classes and functions, and for the
  parameters of a \<^verbatim>\<open>lambda\<close> or \<^verbatim>\<open>def\<close>). So two values are equal exactly when
  they were computed by the same calls on the same arguments. Every library call is
  taken to return.

  Running a cell yields events, one per statement: an assignment with the value
  assigned, an expression statement, or a \<^verbatim>\<open>print\<close> of an f-string with its text
  pieces and formatted values. A Python variable is a constant here; the names
  \<^verbatim>\<open>p\<close>, \<^verbatim>\<open>r\<close>, \<^verbatim>\<open>w\<close>, \<^verbatim>\<open>y\<close>, \<^verbatim>\<open>H\<close>, \<^verbatim>\<open>dH\<close> carry the suffix
  \<open>_nb\<close>. \<^verbatim>\<open>r\<close>, \<^verbatim>\<open>sigma\<close>, \<^verbatim>\<open>fig\<close> and \<^verbatim>\<open>ax\<close> are assigned in
  several cells, each time by the same expression. \<open>have_slycot\<close> is the value of
  \<^verbatim>\<open>config.HAVE_SLYCOT\<close>.
\<close>

datatype val =
    Num int
  | Flt string
  | Str string
  | Name string
  | Attr val string
  | Call val "val list" "(string \<times> val) list"
  | Bin val string val
  | Neg val
  | ListV "val list"
  | TupleV "val list"
  | DictV "(val \<times> val) list"
  | Item val val
  | Lam "string list" val
  | Cond val val val

datatype piece = Text string | Fmt val string

datatype event =
    Assign "string list" val
  | Do val
  | Print "piece list"

abbreviation call :: "val \<Rightarrow> val list \<Rightarrow> val" where
  "call f args \<equiv> Call f args []"

abbreviation meth :: "val \<Rightarrow> string \<Rightarrow> val list \<Rightarrow> val" where
  "meth obj m args \<equiv> Call (Attr obj m) args []"

definition np :: val where "np = Name ''np''"
definition plt :: val where "plt = Name ''plt''"
definition spla :: val where "spla = Name ''spla''"
definition spint :: val where "spint = Name ''spint''"
definition sy :: val where "sy = Name ''sy''"

definition cell_imports :: "event list" where
  "cell_imports =
     [Do (call (Name ''set_log_levels'')
            [DictV [(Str ''pymor.algorithms.gram_schmidt.gram_schmidt'', Str ''WARNING'')]])]"

text \<open>Cell "Discretize problem".\<close>

definition p_nb :: val where
  "p_nb = Call (Name ''InstationaryProblem'')
         [Call (Name ''StationaryProblem'') []
            [(''domain'', Call (Name ''LineDomain'') [ListV [Flt ''0.'', Flt ''1.'']]
                            [(''left'', Str ''robin''), (''right'', Str ''robin'')]),
             (''diffusion'', call (Name ''ConstantFunction'') [Flt ''1.'', Num 1]),
             (''robin_data'',
                TupleV [call (Name ''ConstantFunction'') [Flt ''1.'', Num 1],
                        call (Name ''ExpressionFunction'')
                          [Str ''(x[...,0] < 1e-10) * 1.'', Num 1]]),
             (''functionals'',
                DictV [(Str ''output'',
                        TupleV [Str ''l2_boundary'',
                                call (Name ''ExpressionFunction'')
                                  [Str ''(x[...,0] > (1 - 1e-10)) * 1.'', Num 1]])])],
          call (Name ''ConstantFunction'') [Flt ''0.'', Num 1]]
         [(''T'', Flt ''3.'')]"

definition discretized :: val where
  "discretized = Call (Name ''discretize_instationary_cg'') [p_nb]
                   [(''diameter'', Bin (Num 1) ''/'' (Num 100)), (''nt'', Num 100)]"

definition fom :: val where
  "fom = Item discretized (Num 0)"

definition cell_discretize :: "event list" where
  "cell_discretize = [Assign [''p''] p_nb, Assign [''fom'', ''_''] discretized]"

definition cell_visualize :: "event list" where
  "cell_visualize = [Do (meth fom ''visualize'' [meth fom ''solve'' []])]"

definition lti :: val where
  "lti = meth fom ''to_lti'' []"

definition cell_to_lti :: "event list" where
  "cell_to_lti = [Assign [''lti''] lti]"

definition cell_dimensions :: "event list" where
  "cell_dimensions =
     [Print [Text ''order of the model = '', Fmt (Attr lti ''order'') []],
      Print [Text ''number of inputs   = '', Fmt (Attr lti ''input_dim'') []],
      Print [Text ''number of outputs  = '', Fmt (Attr lti ''output_dim'') []]]"

definition subplots :: val where
  "subplots = meth plt ''subplots'' []"

definition fig :: val where
  "fig = Item subplots (Num 0)"

definition ax :: val where
  "ax = Item subplots (Num 1)"

definition poles :: val where
  "poles = meth lti ''poles'' []"

definition cell_poles :: "event list" where
  "cell_poles =
     [Assign [''poles''] poles,
      Assign [''fig'', ''ax''] subplots,
      Do (meth ax ''plot'' [Attr poles ''real'', Attr poles ''imag'', Str ''.'']),
      Do (meth ax ''set_title'' [Str ''System poles'']),
      Do (meth plt ''show'' [])]"

definition w_nb :: val where
  "w_nb = meth np ''logspace'' [Num (- 2), Num 3, Num 100]"

definition cell_bode_full :: "event list" where
  "cell_bode_full =
     [Assign [''w''] w_nb,
      Assign [''fig'', ''ax''] subplots,
      Do (Call (Attr lti ''mag_plot'') [w_nb] [(''ax'', ax)]),
      Do (meth ax ''set_title'' [Str ''Bode plot of the full model'']),
      Do (meth plt ''show'' [])]"

definition hsv :: val where
  "hsv = meth lti ''hsv'' []"

definition cell_hsv :: "event list" where
  "cell_hsv =
     [Assign [''hsv''] hsv,
      Assign [''fig'', ''ax''] subplots,
      Do (meth ax ''semilogy''
            [call (Name ''range'') [Num 1, Bin (call (Name ''len'') [hsv]) ''+'' (Num 1)],
             hsv, Str ''.-'']),
      Do (meth ax ''set_title'' [Str ''Hankel singular values'']),
      Do (meth plt ''show'' [])]"

definition cell_fom_norms :: "bool \<Rightarrow> event list" where
  "cell_fom_norms have_slycot =
     [Print [Text ''FOM H_2-norm:    '', Fmt (meth lti ''h2_norm'' []) ''e'']] @
     (if have_slycot
      then [Print [Text ''FOM H_inf-norm:  '', Fmt (meth lti ''hinf_norm'' []) ''e'']]
      else []) @
     [Print [Text ''FOM Hankel-norm: '', Fmt (meth lti ''hankel_norm'' []) ''e'']]"

text \<open>Balanced Truncation (BT).\<close>

definition r_nb :: val where
  "r_nb = Num 5"

definition bt_reductor :: val where
  "bt_reductor = call (Name ''BTReductor'') [lti]"

definition rom_bt :: val where
  "rom_bt = Call (Attr bt_reductor ''reduce'') [r_nb] [(''tol'', Flt ''1e-5'')]"

definition cell_bt :: "event list" where
  "cell_bt =
     [Assign [''r''] r_nb,
      Assign [''bt_reductor''] bt_reductor,
      Assign [''rom_bt''] rom_bt]"

definition err_bt :: val where
  "err_bt = Bin lti ''-'' rom_bt"

definition cell_bt_errors :: "bool \<Rightarrow> event list" where
  "cell_bt_errors have_slycot =
     [Assign [''err_bt''] err_bt,
      Print [Text ''BT relative H_2-error:    '',
             Fmt (Bin (meth err_bt ''h2_norm'' []) ''/'' (meth lti ''h2_norm'' [])) ''e'']] @
     (if have_slycot
      then [Print [Text ''BT relative H_inf-error:  '',
                   Fmt (Bin (meth err_bt ''hinf_norm'' []) ''/'' (meth lti ''hinf_norm'' [])) ''e'']]
      else []) @
     [Print [Text ''BT relative Hankel-error: '',
             Fmt (Bin (meth err_bt ''hankel_norm'' []) ''/'' (meth lti ''hankel_norm'' [])) ''e'']]"

definition cell_bt_bode :: "event list" where
  "cell_bt_bode =
     [Assign [''fig'', ''ax''] subplots,
      Do (Call (Attr lti ''mag_plot'') [w_nb] [(''ax'', ax)]),
      Do (Call (Attr rom_bt ''mag_plot'') [w_nb] [(''ax'', ax), (''linestyle'', Str ''dashed'')]),
      Do (meth ax ''set_title'' [Str ''Bode plot of the full and BT reduced model'']),
      Do (meth plt ''show'' [])]"

definition cell_bt_error_bode :: "event list" where
  "cell_bt_error_bode =
     [Assign [''fig'', ''ax''] subplots,
      Do (Call (Attr err_bt ''mag_plot'') [w_nb] [(''ax'', ax)]),
      Do (meth ax ''set_title'' [Str ''Bode plot of the BT error system'']),
      Do (meth plt ''show'' [])]"

text \<open>LQG Balanced Truncation (LQGBT).\<close>

definition lqgbt_reductor :: val where
  "lqgbt_reductor = call (Name ''LQGBTReductor'') [lti]"

definition rom_lqgbt :: val where
  "rom_lqgbt = Call (Attr lqgbt_reductor ''reduce'') [r_nb] [(''tol'', Flt ''1e-5'')]"

definition cell_lqgbt :: "event list" where
  "cell_lqgbt =
     [Assign [''r''] r_nb,
      Assign [''lqgbt_reductor''] lqgbt_reductor,
      Assign [''rom_lqgbt''] rom_lqgbt]"

definition err_lqgbt :: val where
  "err_lqgbt = Bin lti ''-'' rom_lqgbt"

definition cell_lqgbt_errors :: "bool \<Rightarrow> event list" where
  "cell_lqgbt_errors have_slycot =
     [Assign [''err_lqgbt''] err_lqgbt,
      Print [Text ''LQGBT relative H_2-error:    '',
             Fmt (Bin (meth err_lqgbt ''h2_norm'' []) ''/'' (meth lti ''h2_norm'' [])) ''e'']] @
     (if have_slycot
      then [Print [Text ''LQGBT relative H_inf-error:  '',
                   Fmt (Bin (meth err_lqgbt ''hinf_norm'' []) ''/'' (meth lti ''hinf_norm'' []))
                     ''e'']]
      else []) @
     [Print [Text ''LQGBT relative Hankel-error: '',
             Fmt (Bin (meth err_lqgbt ''hankel_norm'' []) ''/'' (meth lti ''hankel_norm'' []))
               ''e'']]"

definition cell_lqgbt_bode :: "event list" where
  "cell_lqgbt_bode =
     [Assign [''fig'', ''ax''] subplots,
      Do (Call (Attr lti ''mag_plot'') [w_nb] [(''ax'', ax)]),
      Do (Call (Attr rom_lqgbt ''mag_plot'') [w_nb]
            [(''ax'', ax), (''linestyle'', Str ''dashed'')]),
      Do (meth ax ''set_title'' [Str ''Bode plot of the full and LQGBT reduced model'']),
      Do (meth plt ''show'' [])]"

definition cell_lqgbt_error_bode :: "event list" where
  "cell_lqgbt_error_bode =
     [Assign [''fig'', ''ax''] subplots,
      Do (Call (Attr err_lqgbt ''mag_plot'') [w_nb] [(''ax'', ax)]),
      Do (meth ax ''set_title'' [Str ''Bode plot of the LGQBT error system'']),
      Do (meth plt ''show'' [])]"

text \<open>Bounded Real Balanced Truncation (BRBT).\<close>

definition brbt_reductor :: val where
  "brbt_reductor = call (Name ''BRBTReductor'') [lti, Flt ''0.34'']"

definition rom_brbt :: val where
  "rom_brbt = Call (Attr brbt_reductor ''reduce'') [r_nb] [(''tol'', Flt ''1e-5'')]"

definition cell_brbt :: "event list" where
  "cell_brbt =
     [Assign [''r''] r_nb,
      Assign [''brbt_reductor''] brbt_reductor,
      Assign [''rom_brbt''] rom_brbt]"

definition err_brbt :: val where
  "err_brbt = Bin lti ''-'' rom_brbt"

definition cell_brbt_errors :: "bool \<Rightarrow> event list" where
  "cell_brbt_errors have_slycot =
     [Assign [''err_brbt''] err_brbt,
      Print [Text ''BRBT relative H_2-error:    '',
             Fmt (Bin (meth err_brbt ''h2_norm'' []) ''/'' (meth lti ''h2_norm'' [])) ''e'']] @
     (if have_slycot
      then [Print [Text ''BRBT relative H_inf-error:  '',
                   Fmt (Bin (meth err_brbt ''hinf_norm'' []) ''/'' (meth lti ''hinf_norm'' []))
                     ''e'']]
      else []) @
     [Print [Text ''BRBT relative Hankel-error: '',
             Fmt (Bin (meth err_brbt ''hankel_norm'' []) ''/'' (meth lti ''hankel_norm'' []))
               ''e'']]"

definition cell_brbt_bode :: "event list" where
  "cell_brbt_bode =
     [Assign [''fig'', ''ax''] subplots,
      Do (Call (Attr lti ''mag_plot'') [w_nb] [(''ax'', ax)]),
      Do (Call (Attr rom_brbt ''mag_plot'') [w_nb]
            [(''ax'', ax), (''linestyle'', Str ''dashed'')]),
      Do (meth ax ''set_title'' [Str ''Bode plot of the full and BRBT reduced model'']),
      Do (meth plt ''show'' [])]"

definition cell_brbt_error_bode :: "event list" where
  "cell_brbt_error_bode =
     [Assign [''fig'', ''ax''] subplots,
      Do (Call (Attr err_brbt ''mag_plot'') [w_nb] [(''ax'', ax)]),
      Do (meth ax ''set_title'' [Str ''Bode plot of the BRBT error system'']),
      Do (meth plt ''show'' [])]"

text \<open>Iterative Rational Krylov Algorithm (IRKA).\<close>

definition sigma :: val where
  "sigma = meth np ''logspace'' [Num (- 1), Num 3, r_nb]"

definition irka_reductor :: val where
  "irka_reductor = call (Name ''IRKAReductor'') [lti]"

definition rom_irka :: val where
  "rom_irka = Call (Attr irka_reductor ''reduce'') [r_nb, sigma]
                [(''compute_errors'', Name ''True'')]"

definition cell_irka :: "event list" where
  "cell_irka =
     [Assign [''r''] r_nb,
      Assign [''sigma''] sigma,
      Assign [''irka_reductor''] irka_reductor,
      Assign [''rom_irka''] rom_irka]"

definition cell_irka_dist :: "event list" where
  "cell_irka_dist =
     [Assign [''fig'', ''ax''] subplots,
      Do (meth ax ''semilogy'' [Attr irka_reductor ''dist'', Str ''.-'']),
      Do (meth ax ''set_title'' [Str ''Distances between shifts in IRKA iterations'']),
      Do (meth plt ''show'' [])]"

definition err_irka :: val where
  "err_irka = Bin lti ''-'' rom_irka"

definition cell_irka_errors :: "bool \<Rightarrow> event list" where
  "cell_irka_errors have_slycot =
     [Assign [''err_irka''] err_irka,
      Print [Text ''IRKA relative H_2-error:    '',
             Fmt (Bin (meth err_irka ''h2_norm'' []) ''/'' (meth lti ''h2_norm'' [])) ''e'']] @
     (if have_slycot
      then [Print [Text ''IRKA relative H_inf-error:  '',
                   Fmt (Bin (meth err_irka ''hinf_norm'' []) ''/'' (meth lti ''hinf_norm'' []))
                     ''e'']]
      else []) @
     [Print [Text ''IRKA relative Hankel-error: '',
             Fmt (Bin (meth err_irka ''hankel_norm'' []) ''/'' (meth lti ''hankel_norm'' []))
               ''e'']]"

definition cell_irka_bode :: "event list" where
  "cell_irka_bode =
     [Assign [''fig'', ''ax''] subplots,
      Do (Call (Attr lti ''mag_plot'') [w_nb] [(''ax'', ax)]),
      Do (Call (Attr rom_irka ''mag_plot'') [w_nb]
            [(''ax'', ax), (''linestyle'', Str ''dashed'')]),
      Do (meth ax ''set_title'' [Str ''Bode plot of the full and IRKA reduced model'']),
      Do (meth plt ''show'' [])]"

definition cell_irka_error_bode :: "event list" where
  "cell_irka_error_bode =
     [Assign [''fig'', ''ax''] subplots,
      Do (Call (Attr err_irka ''mag_plot'') [w_nb] [(''ax'', ax)]),
      Do (meth ax ''set_title'' [Str ''Bode plot of the IRKA error system'']),
      Do (meth plt ''show'' [])]"

text \<open>Two-Sided Iteration Algorithm (TSIA).\<close>

definition Ar :: val where
  "Ar = meth np ''diag'' [Neg (meth np ''logspace'' [Num (- 1), Num 3, r_nb])]"

definition Br :: val where
  "Br = meth np ''ones'' [TupleV [r_nb, Num 1]]"

definition Cr :: val where
  "Cr = meth np ''ones'' [TupleV [Num 1, r_nb]]"

definition Er :: val where
  "Er = meth np ''eye'' [r_nb]"

definition rom0 :: val where
  "rom0 = Call (Attr (Name ''LTIModel'') ''from_matrices'') [Ar, Br, Cr]
            [(''E'', Er),
             (''input_id'', Attr (Attr lti ''input_space'') ''id''),
             (''state_id'', Attr (Attr lti ''state_space'') ''id''),
             (''output_id'', Attr (Attr lti ''output_space'') ''id'')]"

definition tsia_reductor :: val where
  "tsia_reductor = call (Name ''TSIAReductor'') [lti]"

definition rom_tsia :: val where
  "rom_tsia = Call (Attr tsia_reductor ''reduce'') [rom0] [(''compute_errors'', Name ''True'')]"

definition cell_tsia :: "event list" where
  "cell_tsia =
     [Assign [''r''] r_nb,
      Assign [''Ar''] Ar,
      Assign [''Br''] Br,
      Assign [''Cr''] Cr,
      Assign [''Er''] Er,
      Assign [''rom0''] rom0,
      Assign [''tsia_reductor''] tsia_reductor,
      Assign [''rom_tsia''] rom_tsia]"

text \<open>One-Sided IRKA.\<close>

definition one_sided_irka_reductor :: val where
  "one_sided_irka_reductor = call (Name ''OneSidedIRKAReductor'') [lti, Str ''V'']"

definition rom_one_sided_irka :: val where
  "rom_one_sided_irka = Call (Attr one_sided_irka_reductor ''reduce'') [r_nb, sigma]
                          [(''compute_errors'', Name ''True'')]"

definition cell_one_sided_irka :: "event list" where
  "cell_one_sided_irka =
     [Assign [''r''] r_nb,
      Assign [''sigma''] sigma,
      Assign [''one_sided_irka_reductor''] one_sided_irka_reductor,
      Assign [''rom_one_sided_irka''] rom_one_sided_irka]"

definition cell_one_sided_irka_dist :: "event list" where
  "cell_one_sided_irka_dist =
     [Assign [''fig'', ''ax''] subplots,
      Do (meth ax ''semilogy'' [Attr one_sided_irka_reductor ''dist'', Str ''.-'']),
      Do (meth ax ''set_title''
            [Str ''Distances between shifts in one-sided IRKA iterations'']),
      Do (meth plt ''show'' [])]"

definition osirka_poles :: val where
  "osirka_poles = meth rom_one_sided_irka ''poles'' []"

definition cell_one_sided_irka_poles :: "event list" where
  "cell_one_sided_irka_poles =
     [Assign [''fig'', ''ax''] subplots,
      Assign [''osirka_poles''] osirka_poles,
      Do (meth ax ''plot'' [Attr osirka_poles ''real'', Attr osirka_poles ''imag'', Str ''.'']),
      Do (meth ax ''set_title'' [Str ''Poles of the one-sided IRKA ROM'']),
      Do (meth plt ''show'' [])]"

definition err_one_sided_irka :: val where
  "err_one_sided_irka = Bin lti ''-'' rom_one_sided_irka"

definition cell_one_sided_irka_errors :: "bool \<Rightarrow> event list" where
  "cell_one_sided_irka_errors have_slycot =
     [Assign [''err_one_sided_irka''] err_one_sided_irka,
      Print [Text ''One-sided IRKA relative H_2-error:    '',
             Fmt (Bin (meth err_one_sided_irka ''h2_norm'' []) ''/'' (meth lti ''h2_norm'' []))
               ''e'']] @
     (if have_slycot
      then [Print [Text ''One-sided IRKA relative H_inf-error:  '',
                   Fmt (Bin (meth err_one_sided_irka ''hinf_norm'' []) ''/''
                          (meth lti ''hinf_norm'' [])) ''e'']]
      else []) @
     [Print [Text ''One-sided IRKA relative Hankel-error: '',
             Fmt (Bin (meth err_one_sided_irka ''hankel_norm'' []) ''/''
                    (meth lti ''hankel_norm'' [])) ''e'']]"

definition cell_one_sided_irka_bode :: "event list" where
  "cell_one_sided_irka_bode =
     [Assign [''fig'', ''ax''] subplots,
      Do (Call (Attr lti ''mag_plot'') [w_nb] [(''ax'', ax)]),
      Do (Call (Attr rom_one_sided_irka ''mag_plot'') [w_nb]
            [(''ax'', ax), (''linestyle'', Str ''dashed'')]),
      Do (meth ax ''set_title''
            [Str ''Bode plot of the full and one-sided IRKA reduced model'']),
      Do (meth plt ''show'' [])]"

definition cell_one_sided_irka_error_bode :: "event list" where
  "cell_one_sided_irka_error_bode =
     [Assign [''fig'', ''ax''] subplots,
      Do (Call (Attr err_one_sided_irka ''mag_plot'') [w_nb] [(''ax'', ax)]),
      Do (meth ax ''set_title'' [Str ''Bode plot of the one-sided IRKA error system'']),
      Do (meth plt ''show'' [])]"

text \<open>Transfer Function IRKA (TF-IRKA).\<close>

definition symbols :: val where
  "symbols = meth sy ''symbols'' [Str ''s u c1 c2'']"

definition sy_s :: val where "sy_s = Item symbols (Num 0)"
definition sy_u :: val where "sy_u = Item symbols (Num 1)"
definition sy_c1 :: val where "sy_c1 = Item symbols (Num 2)"
definition sy_c2 :: val where "sy_c2 = Item symbols (Num 3)"

definition sqrt_s :: val where
  "sqrt_s = meth sy ''sqrt'' [sy_s]"

definition sol :: val where
  "sol = meth sy ''solve''
     [ListV
        [Bin (Bin (Bin (Bin sqrt_s ''-'' (Num 1)) ''*'' sy_c1) ''-''
                  (Bin (Bin sqrt_s ''+'' (Num 1)) ''*'' sy_c2)) ''+'' sy_u,
         Bin (Bin (Bin (Bin sqrt_s ''+'' (Num 1)) ''*'' (meth sy ''exp'' [sqrt_s])) ''*'' sy_c1)
             ''-''
             (Bin (Bin (Bin sqrt_s ''-'' (Num 1)) ''*'' (meth sy ''exp'' [Neg sqrt_s])) ''*''
                  sy_c2)],
      ListV [sy_c1, sy_c2]]"

definition y_nb :: val where
  "y_nb = Bin (Bin (Item sol sy_c1) ''*'' (meth sy ''exp'' [sqrt_s])) ''+''
              (Bin (Item sol sy_c2) ''*'' (meth sy ''exp'' [Neg sqrt_s]))"

definition sy_tf :: val where
  "sy_tf = meth sy ''simplify'' [Bin y_nb ''/'' sy_u]"

definition cell_sympy :: "event list" where
  "cell_sympy =
     [Do (meth sy ''init_printing'' []),
      Assign [''sy_s'', ''sy_u'', ''sy_c1'', ''sy_c2''] symbols,
      Assign [''sol''] sol,
      Assign [''y''] y_nb,
      Assign [''sy_tf''] sy_tf,
      Do sy_tf]"

definition cell_tf_limit :: "event list" where
  "cell_tf_limit = [Do (meth sy ''limit'' [sy_tf, sy_s, Num 0])]"

definition sy_dtf :: val where
  "sy_dtf = meth sy_tf ''diff'' [sy_s]"

definition cell_dtf :: "event list" where
  "cell_dtf = [Assign [''sy_dtf''] sy_dtf, Do sy_dtf]"

definition cell_dtf_limit :: "event list" where
  "cell_dtf_limit = [Do (meth sy ''limit'' [sy_dtf, sy_s, Num 0])]"

definition H_nb :: val where
  "H_nb = Lam [''s'']
     (Cond (Bin (Name ''s'') ''=='' (Num 0))
        (meth np ''array'' [ListV [ListV [Bin (Num 1) ''/'' (Num 3)]]])
        (meth np ''array''
           [ListV [ListV [call (Name ''complex'') [meth sy_tf ''subs'' [sy_s, Name ''s'']]]]]))"

definition dH_nb :: val where
  "dH_nb = Lam [''s'']
     (Cond (Bin (Name ''s'') ''=='' (Num 0))
        (meth np ''array'' [ListV [ListV [Bin (Num (- 13)) ''/'' (Num 54)]]])
        (meth np ''array''
           [ListV [ListV [call (Name ''complex'') [meth sy_dtf ''subs'' [sy_s, Name ''s'']]]]]))"

definition tf :: val where
  "tf = call (Name ''TransferFunction'')
          [Attr lti ''input_space'', Attr lti ''output_space'', H_nb, dH_nb]"

definition cell_tf :: "event list" where
  "cell_tf = [Assign [''H''] H_nb, Assign [''dH''] dH_nb, Assign [''tf''] tf]"

definition tf_lti_diff :: val where
  "tf_lti_diff = Bin tf ''-'' lti"

definition cell_tf_lti_bode :: "event list" where
  "cell_tf_lti_bode =
     [Assign [''tf_lti_diff''] tf_lti_diff,
      Assign [''fig'', ''ax''] subplots,
      Do (Call (Attr tf_lti_diff ''mag_plot'') [w_nb] [(''ax'', ax)]),
      Do (meth ax ''set_title''
            [Str ''Distance between PDE and discretized transfer function'']),
      Do (meth plt ''show'' [])]"

text \<open>
  The integrand \<^verbatim>\<open>lambda w: spla.norm(sys.eval_tf(w * 1j)) ** 2\<close> of the three
  quadratures, for the system \<open>sys\<close>.
\<close>

definition integrand :: "val \<Rightarrow> val" where
  "integrand sys =
     Lam [''w'']
       (Bin (meth spla ''norm'' [meth sys ''eval_tf'' [Bin (Name ''w'') ''*'' (Flt ''1j'')]])
            ''**'' (Num 2))"

definition tf_h2_quad :: val where
  "tf_h2_quad = meth spint ''quad'' [integrand tf, Neg (Attr np ''inf''), Attr np ''inf'']"

definition tf_h2_int :: val where "tf_h2_int = Item tf_h2_quad (Num 0)"

definition tf_h2_norm :: val where
  "tf_h2_norm = meth np ''sqrt'' [Bin (Bin tf_h2_int ''/'' (Num 2)) ''/'' (Attr np ''pi'')]"

definition cell_tf_h2 :: "event list" where
  "cell_tf_h2 =
     [Assign [''tf_h2_int'', ''int_err''] tf_h2_quad,
      Assign [''tf_h2_norm''] tf_h2_norm,
      Print [Text ''TF H_2-norm  = '', Fmt tf_h2_norm ''e''],
      Print [Text ''LTI H_2-norm = '', Fmt (meth lti ''h2_norm'' []) ''e'']]"

definition dist_h2_quad :: val where
  "dist_h2_quad = Call (Attr spint ''quad'')
                    [integrand tf_lti_diff, Neg (Attr np ''inf''), Attr np ''inf'']
                    [(''epsabs'', Flt ''1e-16'')]"

definition dist_h2_int :: val where "dist_h2_int = Item dist_h2_quad (Num 0)"

definition h2_dist :: val where
  "h2_dist = meth np ''sqrt'' [Bin (Bin dist_h2_int ''/'' (Num 2)) ''/'' (Attr np ''pi'')]"

definition cell_tf_lti_h2 :: "event list" where
  "cell_tf_lti_h2 =
     [Assign [''dist_h2_int'', ''dist_int_err''] dist_h2_quad,
      Assign [''h2_dist''] h2_dist,
      Print [Text ''TF-LTI relative H_2-distance = '', Fmt (Bin h2_dist ''/'' tf_h2_norm) ''e'']]"

definition tf_irka_reductor :: val where
  "tf_irka_reductor = call (Name ''TF_IRKAReductor'') [tf]"

definition rom_tf_irka :: val where
  "rom_tf_irka = meth tf_irka_reductor ''reduce'' [r_nb]"

definition cell_tf_irka :: "event list" where
  "cell_tf_irka =
     [Assign [''tf_irka_reductor''] tf_irka_reductor,
      Assign [''rom_tf_irka''] rom_tf_irka]"

definition err_tf_irka :: val where
  "err_tf_irka = Bin tf ''-'' rom_tf_irka"

definition error_h2_quad :: val where
  "error_h2_quad = Call (Attr spint ''quad'')
                     [integrand err_tf_irka, Neg (Attr np ''inf''), Attr np ''inf'']
                     [(''epsabs'', Flt ''1e-16'')]"

definition error_h2 :: val where "error_h2 = Item error_h2_quad (Num 0)"

definition tf_irka_h2_error :: val where
  "tf_irka_h2_error = meth np ''sqrt'' [Bin (Bin error_h2 ''/'' (Num 2)) ''/'' (Attr np ''pi'')]"

definition cell_tf_irka_error :: "event list" where
  "cell_tf_irka_error =
     [Assign [''err_tf_irka''] err_tf_irka,
      Assign [''error_h2'', ''error_int_err''] error_h2_quad,
      Assign [''tf_irka_h2_error''] tf_irka_h2_error,
      Print [Text ''TF-IRKA relative H_2-error = '',
             Fmt (Bin tf_irka_h2_error ''/'' tf_h2_norm) ''e'']]"

definition err_irka_tf :: val where
  "err_irka_tf = Bin tf ''-'' rom_irka"

definition error_irka_h2_quad :: val where
  "error_irka_h2_quad = Call (Attr spint ''quad'')
                          [integrand err_irka_tf, Neg (Attr np ''inf''), Attr np ''inf'']
                          [(''epsabs'', Flt ''1e-16'')]"

definition error_irka_h2 :: val where "error_irka_h2 = Item error_irka_h2_quad (Num 0)"

definition irka_h2_error :: val where
  "irka_h2_error =
     meth np ''sqrt'' [Bin (Bin error_irka_h2 ''/'' (Num 2)) ''/'' (Attr np ''pi'')]"

definition cell_irka_tf_error :: "event list" where
  "cell_irka_tf_error =
     [Assign [''err_irka_tf''] err_irka_tf,
      Assign [''error_irka_h2'', ''error_irka_int_err''] error_irka_h2_quad,
      Assign [''irka_h2_error''] irka_h2_error,
      Print [Text ''IRKA relative H_2-error (from TF) = '',
             Fmt (Bin irka_h2_error ''/'' tf_h2_norm) ''e'']]"

text \<open>The code cells of the notebook, run from top to bottom.\<close>

definition heat_notebook :: "bool \<Rightarrow> event list" where
  "heat_notebook have_slycot =
     cell_imports @ cell_discretize @ cell_visualize @ cell_to_lti @ cell_dimensions @
     cell_poles @ cell_bode_full @ cell_hsv @ cell_fom_norms have_slycot @
     cell_bt @ cell_bt_errors have_slycot @ cell_bt_bode @ cell_bt_error_bode @
     cell_lqgbt @ cell_lqgbt_errors have_slycot @ cell_lqgbt_bode @ cell_lqgbt_error_bode @
     cell_brbt @ cell_brbt_errors have_slycot @ cell_brbt_bode @ cell_brbt_error_bode @
     cell_irka @ cell_irka_dist @ cell_irka_errors have_slycot @ cell_irka_bode @
     cell_irka_error_bode @
     cell_tsia @
     cell_one_sided_irka @ cell_one_sided_irka_dist @ cell_one_sided_irka_poles @
     cell_one_sided_irka_errors have_slycot @ cell_one_sided_irka_bode @
     cell_one_sided_irka_error_bode @
     cell_sympy @ cell_tf_limit @ cell_dtf @ cell_dtf_limit @ cell_tf @ cell_tf_lti_bode @
     cell_tf_h2 @ cell_tf_lti_h2 @ cell_tf_irka @ cell_tf_irka_error @ cell_irka_tf_error"

subsection \<open>Reading the events\<close>

text \<open>
  \<open>mentions t v\<close>: the value \<open>t\<close> is \<open>v\<close> or occurs in \<open>v\<close>. \<open>printed\<close> lists the
  formatted values of the \<^verbatim>\<open>print\<close> statements. \<open>norm_reported tr sys n\<close>: some
  printed value is computed from \<^verbatim>\<open>sys.n()\<close>. \<open>mag_plotted tr sys\<close>:
  \<^verbatim>\<open>sys.mag_plot(...)\<close> is called. \<open>relative_figure full rom n\<close> is
  \<^verbatim>\<open>(full - rom).n() / full.n()\<close>. \<open>steps\<close> keeps the assignments whose value is a
  call of \<^verbatim>\<open>discretize_instationary_cg\<close>, of a method \<^verbatim>\<open>to_lti\<close> or of a
  method \<^verbatim>\<open>reduce\<close>, with the object the method is called on and the positional
  arguments. \<open>reduced_system\<close> is the system a reduction is applied to: the first
  argument of the constructor of the reductor whose \<^verbatim>\<open>reduce\<close> is called
  (\<^verbatim>\<open>BTReductor(lti).reduce(r)\<close> reduces \<^verbatim>\<open>lti\<close>). \<open>error_quantified\<close> is
  what is asked of every reduced model: the three norms of the error system and the
  magnitude plots.
\<close>

fun mentions :: "val \<Rightarrow> val \<Rightarrow> bool" where
  "mentions t (Num n) = (t = Num n)"
| "mentions t (Flt x) = (t = Flt x)"
| "mentions t (Str x) = (t = Str x)"
| "mentions t (Name x) = (t = Name x)"
| "mentions t (Attr v a) = (t = Attr v a \<or> mentions t v)"
| "mentions t (Call f args kw) =
     (t = Call f args kw \<or> mentions t f \<or> (\<exists>a\<in>set args. mentions t a) \<or>
      (\<exists>k\<in>set kw. mentions t (snd k)))"
| "mentions t (Bin a opr b) = (t = Bin a opr b \<or> mentions t a \<or> mentions t b)"
| "mentions t (Neg a) = (t = Neg a \<or> mentions t a)"
| "mentions t (ListV xs) = (t = ListV xs \<or> (\<exists>a\<in>set xs. mentions t a))"
| "mentions t (TupleV xs) = (t = TupleV xs \<or> (\<exists>a\<in>set xs. mentions t a))"
| "mentions t (DictV kvs) =
     (t = DictV kvs \<or> (\<exists>k\<in>set kvs. mentions t (fst k) \<or> mentions t (snd k)))"
| "mentions t (Item a i) = (t = Item a i \<or> mentions t a \<or> mentions t i)"
| "mentions t (Lam ps b) = (t = Lam ps b \<or> mentions t b)"
| "mentions t (Cond c a b) = (t = Cond c a b \<or> mentions t c \<or> mentions t a \<or> mentions t b)"

fun figures :: "event \<Rightarrow> val list" where
  "figures (Print ps) = concat (map (\<lambda>q. case q of Fmt v f \<Rightarrow> [v] | Text x \<Rightarrow> []) ps)"
| "figures (Assign xs v) = []"
| "figures (Do v) = []"

definition printed :: "event list \<Rightarrow> val list" where
  "printed tr = concat (map figures tr)"

definition norm_reported :: "event list \<Rightarrow> val \<Rightarrow> string \<Rightarrow> bool" where
  "norm_reported tr sys n = list_ex (mentions (meth sys n [])) (printed tr)"

fun is_mag_plot :: "val \<Rightarrow> event \<Rightarrow> bool" where
  "is_mag_plot sys (Do (Call (Attr x m) args kw)) = (x = sys \<and> m = ''mag_plot'')"
| "is_mag_plot sys e = False"

definition mag_plotted :: "event list \<Rightarrow> val \<Rightarrow> bool" where
  "mag_plotted tr sys = list_ex (is_mag_plot sys) tr"

definition relative_figure :: "val \<Rightarrow> val \<Rightarrow> string \<Rightarrow> val" where
  "relative_figure full rom n = Bin (meth (Bin full ''-'' rom) n []) ''/'' (meth full n [])"





definition error_quantified :: "event list \<Rightarrow> val \<Rightarrow> val \<Rightarrow> bool" where
  "error_quantified tr full rom =
     (norm_reported tr (Bin full ''-'' rom) ''h2_norm'' \<and>
      norm_reported tr (Bin full ''-'' rom) ''hinf_norm'' \<and>
      norm_reported tr (Bin full ''-'' rom) ''hankel_norm'' \<and>
      mag_plotted tr full \<and> mag_plotted tr rom \<and> mag_plotted tr (Bin full ''-'' rom))"

section \<open>Properties of the demo launcher\<close>

subsection \<open>Discovery\<close>

lemma discover_append:
  "discover (names, err) modules shorts =
     (case err of
        None \<Rightarrow> Inr (modules @ names, shorts @ map (drop (length ''pymordemos.'')) names)
      | Some e \<Rightarrow> Inl e)"
  by (induction names arbitrary: modules shorts) (simp_all add: Let_def split: option.splits)

lemma discovered_eq:
  "discovered w =
     (case walk_error w of
        None \<Rightarrow> Inr (map (\<lambda>n. ''pymordemos.'' @ n) (found w), found w)
      | Some e \<Rightarrow> Inl e)"
  by (simp add: discovered_def discover_append walk_packages_def pymordemos_name_def
      comp_def split: option.splits)

lemma discovered_Inr:
  "discovered w = Inr (modules, shorts) \<Longrightarrow>
   modules = map (\<lambda>n. ''pymordemos.'' @ n) shorts \<and> shorts = found w \<and> walk_error w = None"
  by (auto simp add: discovered_eq split: option.splits)

lemma index_first:
  "x \<in> set xs \<Longrightarrow> \<exists>i. index xs x = Inr i \<and> i < length xs \<and> xs ! i = x"
proof (induction xs)
  case Nil
  then show ?case by simp
next
  case (Cons y ys)
  show ?case
  proof (cases "y = x")
    case True
    then show ?thesis by simp
  next
    case False
    with Cons.prems have "x \<in> set ys" by simp
    from Cons.IH [OF this] obtain i where "index ys x = Inr i" "i < length ys" "ys ! i = x"
      by blast
    with False show ?thesis by simp
  qed
qed

lemma index_distinct:
  "distinct xs \<Longrightarrow> i < length xs \<Longrightarrow> index xs (xs ! i) = Inr i"
proof (induction xs arbitrary: i)
  case Nil
  then show ?case by simp
next
  case (Cons y ys)
  show ?case
  proof (cases i)
    case 0
    then show ?thesis by simp
  next
    case (Suc j)
    with Cons.prems have j: "j < length ys" and d: "distinct ys" and ny: "y \<notin> set ys"
      by simp_all
    from j ny have "y \<noteq> ys ! j" by (metis nth_mem)
    with Cons.IH [OF d j] Suc show ?thesis by simp
  qed
qed

lemma join_mem_sublist: "s \<in> set xs \<Longrightarrow> sublist s (join sep xs)"
proof (induction sep xs rule: join.induct)
  case (1 sep)
  then show ?case by simp
next
  case (2 sep x)
  then show ?case by simp
next
  case (3 sep x y ys)
  show ?case
  proof (cases "s = x")
    case True
    then show ?thesis by (simp add: sublist_append)
  next
    case False
    with "3.prems" have "s \<in> set (y # ys)" by simp
    from "3.IH" [OF this] show ?thesis by (simp add: sublist_append)
  qed
qed

lemma demo_world_discovered:
  "discovered demo_world =
     Inr ([''pymordemos.burgers'', ''pymordemos.thermalblock''], [''burgers'', ''thermalblock''])"
  by (simp add: discovered_eq demo_world_def)

lemma strict_world_discovered:
  "discovered strict_world =
     Inr ([''pymordemos.burgers'', ''pymordemos.thermalblock''], [''burgers'', ''thermalblock''])"
  by (simp add: discovered_eq strict_world_def)

lemma broken_world_discovered: "discovered broken_world = Inl ValueError"
  by (simp add: discovered_eq broken_world_def)

subsection \<open>Dispatch\<close>

lemma launcher_selected:
  assumes d: "discovered w = Inr (modules, shorts)"
    and i: "i < length modules"
  shows "launcher w (prog # shorts ! i # opts) =
           run w (prog # shorts ! i # opts) [] (modules ! i)"
proof -
  from discovered_Inr [OF d] have m: "modules = map (\<lambda>n. ''pymordemos.'' @ n) shorts"
    by simp
  from i m have mem: "shorts ! i \<in> set shorts" by simp
  from index_first [OF mem] obtain j
    where j: "index shorts (shorts ! i) = Inr j" "j < length shorts" "shorts ! j = shorts ! i"
    by blast
  from j i m have same: "modules ! j = modules ! i" by simp
  from j m have jm: "j < length modules" by simp
  show ?thesis
    using mem j(1) jm same by (simp add: launcher_def d)
qed

lemma launcher_usage:
  assumes d: "discovered w = Inr (modules, shorts)"
    and u: "length (argv0 # rest) < 2 \<or> (argv0 # rest) ! 1 \<notin> set shorts"
  shows "launcher w (argv0 # rest) = usage argv0 shorts []"
  using u by (auto simp add: launcher_def d)

lemma launcher_walk_error:
  "discovered w = Inl e \<Longrightarrow>
   launcher w (argv0 # rest) = \<lparr>stdout = [], calls = [], final = e\<rparr>"
  by (simp add: launcher_def)

lemma run_calls:
  "2 \<le> length argv \<Longrightarrow>
   calls (run w argv out m) =
     [\<lparr>module = m, run_name = ''__main__'', alter_sys = True,
       argv_at_call = take 1 argv @ drop 2 argv,
       argv_in_module = run_module_argv (origin w m) True (take 1 argv @ drop 2 argv)\<rparr>]"
  by (simp add: run_def Let_def split: run_result.splits)

lemma run_final:
  "2 \<le> length argv \<Longrightarrow>
   final (run w argv out m) =
     (case demo w m (run_module_argv (origin w m) True (take 1 argv @ drop 2 argv)) of
        Returned \<Rightarrow> SystemExit 0 | Raised e \<Rightarrow> e)"
  by (simp add: run_def Let_def split: run_result.splits)

lemma run_stdout: "stdout (run w argv out m) = out"
  by (simp add: run_def Let_def split: run_result.splits)

text \<open>
  C1, as stated: the launcher called with the short name of a discovered module runs
  that module and then exits with status 0. It does so only if nothing raises on the
  way. In \<open>strict_world\<close> the module \<^verbatim>\<open>pymordemos.burgers\<close> is discovered and
  run, and the launcher ends with the module's own \<^verbatim>\<open>SystemExit(2)\<close>:
  \<^verbatim>\<open>sys.exit(0)\<close> is not reached. In \<open>broken_world\<close> the walk yields
  \<^verbatim>\<open>pymordemos.burgers\<close> and then raises: no module is run and the launcher ends
  with that exception.
\<close>

theorem launcher_exit_status_counterexample:
  "discovered strict_world =
     Inr ([''pymordemos.burgers'', ''pymordemos.thermalblock''], [''burgers'', ''thermalblock'']) \<and>
   map module (calls (launcher strict_world [''pymor-demo'', ''burgers''])) =
     [''pymordemos.burgers''] \<and>
   final (launcher strict_world [''pymor-demo'', ''burgers'']) = SystemExit 2 \<and>
   final (launcher strict_world [''pymor-demo'', ''burgers'']) \<noteq> SystemExit 0 \<and>
   walk_packages broken_world ''pymordemos.'' =
     ([''pymordemos.burgers'', ''pymordemos.broken''], Some ValueError) \<and>
   calls (launcher broken_world [''pymor-demo'', ''burgers'']) = [] \<and>
   final (launcher broken_world [''pymor-demo'', ''burgers'']) = ValueError \<and>
   final (launcher broken_world [''pymor-demo'', ''burgers'']) \<noteq> SystemExit 0"
proof -
  have "launcher strict_world [''pymor-demo'', ''burgers''] =
        run strict_world [''pymor-demo'', ''burgers''] [] ''pymordemos.burgers''"
    by (simp add: launcher_def strict_world_discovered)
  then have a: "map module (calls (launcher strict_world [''pymor-demo'', ''burgers''])) =
      [''pymordemos.burgers''] \<and>
    final (launcher strict_world [''pymor-demo'', ''burgers'']) = SystemExit 2"
    by (simp add: run_def Let_def run_module_argv_def strict_world_def)
  have b: "walk_packages broken_world ''pymordemos.'' =
     ([''pymordemos.burgers'', ''pymordemos.broken''], Some ValueError)"
    by (simp add: walk_packages_def broken_world_def)
  have c: "launcher broken_world [''pymor-demo'', ''burgers''] =
        \<lparr>stdout = [], calls = [], final = ValueError\<rparr>"
    by (simp add: launcher_def broken_world_discovered)
  from a b c show ?thesis by (simp add: strict_world_discovered)
qed

text \<open>
  C1, amended. When the discovery loop has completed, for every discovered demo module
  (position \<open>i\<close> of the list of modules) the launcher called with that module's short
  name as first argument prints nothing and makes exactly one call of
  \<^verbatim>\<open>run_module\<close>, for that module and with run name \<^verbatim>\<open>__main__\<close>. If the
  module returns, the launcher exits with status 0; if the module raises (an exit of
  its own included), the launcher ends with that exception. The short name is the
  module name without the prefix \<^verbatim>\<open>pymordemos.\<close>; \<^verbatim>\<open>shorts.index\<close> finds
  it at a position that holds the same module, and at position \<open>i\<close> itself when the
  short names are distinct.
\<close>

theorem launcher_runs_selected_module:
  assumes "discovered w = Inr (modules, shorts)"
    and "i < length modules"
    and "r = launcher w (prog # shorts ! i # opts)"
  shows "length shorts = length modules \<and>
         shorts ! i = drop (length ''pymordemos.'') (modules ! i) \<and>
         modules ! i = ''pymordemos.'' @ shorts ! i \<and>
         stdout r = [] \<and>
         (\<exists>c. calls r = [c] \<and> module c = modules ! i \<and> run_name c = ''__main__'' \<and>
              final r = (case demo w (modules ! i) (argv_in_module c) of
                           Returned \<Rightarrow> SystemExit 0 | Raised e \<Rightarrow> e)) \<and>
         (\<exists>j. index shorts (shorts ! i) = Inr j \<and> j < length modules \<and>
              modules ! j = modules ! i) \<and>
         (distinct shorts \<longrightarrow> index shorts (shorts ! i) = Inr i)"
proof -
  from discovered_Inr [OF assms(1)]
  have m: "modules = map (\<lambda>n. ''pymordemos.'' @ n) shorts" by simp
  then have l: "length shorts = length modules" by simp
  have r: "r = run w (prog # shorts ! i # opts) [] (modules ! i)"
    using launcher_selected [OF assms(1,2)] assms(3) by simp
  have len: "2 \<le> length (prog # shorts ! i # opts)" by simp
  have name: "modules ! i = ''pymordemos.'' @ shorts ! i"
    using assms(2) m by simp
  have out: "stdout r = []"
    unfolding r by (rule run_stdout)
  have call: "\<exists>c. calls r = [c] \<and> module c = modules ! i \<and> run_name c = ''__main__'' \<and>
              final r = (case demo w (modules ! i) (argv_in_module c) of
                           Returned \<Rightarrow> SystemExit 0 | Raised e \<Rightarrow> e)"
    unfolding r using run_calls [OF len] run_final [OF len] by simp
  from assms(2) l have mem: "shorts ! i \<in> set shorts" by simp
  from index_first [OF mem] obtain j
    where j: "index shorts (shorts ! i) = Inr j" "j < length shorts" "shorts ! j = shorts ! i"
    by blast
  from j assms(2) m have "modules ! j = modules ! i" by simp
  with j l have pos: "\<exists>j. index shorts (shorts ! i) = Inr j \<and> j < length modules \<and>
              modules ! j = modules ! i"
    by auto
  have idx: "distinct shorts \<longrightarrow> index shorts (shorts ! i) = Inr i"
    using index_distinct [of shorts i] assms(2) l by simp
  from l name out call pos idx show ?thesis by simp
qed

theorem launcher_runs_selected_module_witness:
  "map module (calls (launcher demo_world [''pymor-demo'', ''thermalblock'', ''--help''])) =
     [''pymordemos.thermalblock''] \<and>
   map run_name (calls (launcher demo_world [''pymor-demo'', ''thermalblock'', ''--help''])) =
     [''__main__''] \<and>
   stdout (launcher demo_world [''pymor-demo'', ''thermalblock'', ''--help'']) = [] \<and>
   final (launcher demo_world [''pymor-demo'', ''thermalblock'', ''--help'']) = SystemExit 0 \<and>
   index [''burgers'', ''thermalblock''] ''thermalblock'' = Inr 1 \<and>
   map module (calls (launcher strict_world [''pymor-demo'', ''thermalblock''])) =
     [''pymordemos.thermalblock''] \<and>
   final (launcher strict_world [''pymor-demo'', ''thermalblock'']) = SystemExit 2"
proof -
  have i: "(1::nat) < length [''pymordemos.burgers'', ''pymordemos.thermalblock'']" by simp
  define r where "r = launcher demo_world [''pymor-demo'', ''thermalblock'', ''--help'']"
  have r: "r = launcher demo_world
             (''pymor-demo'' # [''burgers'', ''thermalblock''] ! 1 # [''--help''])"
    by (simp add: r_def)
  from launcher_runs_selected_module [OF demo_world_discovered i r]
  obtain c where c: "calls r = [c]" "module c = ''pymordemos.thermalblock''"
      "run_name c = ''__main__''" "stdout r = []"
      "final r = (case demo demo_world ''pymordemos.thermalblock'' (argv_in_module c) of
                    Returned \<Rightarrow> SystemExit 0 | Raised e \<Rightarrow> e)"
      "index [''burgers'', ''thermalblock''] ''thermalblock'' = Inr 1"
    by auto
  have "demo demo_world ''pymordemos.thermalblock'' (argv_in_module c) = Returned"
    by (simp add: demo_world_def)
  with c have one: "map module (calls r) = [''pymordemos.thermalblock''] \<and>
      map run_name (calls r) = [''__main__''] \<and> stdout r = [] \<and> final r = SystemExit 0 \<and>
      index [''burgers'', ''thermalblock''] ''thermalblock'' = Inr 1"
    by simp
  define q where "q = launcher strict_world [''pymor-demo'', ''thermalblock'']"
  have q: "q = launcher strict_world (''pymor-demo'' # [''burgers'', ''thermalblock''] ! 1 # [])"
    by (simp add: q_def)
  from launcher_runs_selected_module [OF strict_world_discovered i q]
  obtain d where d: "calls q = [d]" "module d = ''pymordemos.thermalblock''"
      "final q = (case demo strict_world ''pymordemos.thermalblock'' (argv_in_module d) of
                    Returned \<Rightarrow> SystemExit 0 | Raised e \<Rightarrow> e)"
    by auto
  have qrun: "q = run strict_world [''pymor-demo'', ''thermalblock''] [] ''pymordemos.thermalblock''"
    unfolding q_def by (simp add: launcher_def strict_world_discovered)
  have "calls q = [\<lparr>module = ''pymordemos.thermalblock'', run_name = ''__main__'',
      alter_sys = True, argv_at_call = [''pymor-demo''],
      argv_in_module = [''/site-packages/pymordemos/thermalblock.py'']\<rparr>]"
    unfolding qrun by (simp add: run_def Let_def run_module_argv_def strict_world_def)
  with d(1) have "argv_in_module d = [''/site-packages/pymordemos/thermalblock.py'']"
    by auto
  then have "demo strict_world ''pymordemos.thermalblock'' (argv_in_module d) =
      Raised (SystemExit 2)"
    by (simp add: strict_world_def)
  with d have two: "map module (calls q) = [''pymordemos.thermalblock''] \<and>
      final q = SystemExit 2"
    by simp
  from one two show ?thesis by (simp add: r_def q_def)
qed

text \<open>
  C7, as stated: with fewer than two arguments, or with a first argument that is not
  a discovered short name, the launcher prints the usage message and exits with status
  0 rather than with an exception. In \<open>broken_world\<close> the discovery loop, which runs
  before the arguments are looked at, ends with \<^verbatim>\<open>ValueError\<close>: nothing is
  printed and the launcher ends with that exception.
\<close>

theorem launcher_usage_counterexample:
  "length [''pymor-demo''] < 2 \<and>
   stdout (launcher broken_world [''pymor-demo'']) = [] \<and>
   final (launcher broken_world [''pymor-demo'']) = ValueError \<and>
   final (launcher broken_world [''pymor-demo'']) \<noteq> SystemExit 0 \<and>
   ''nosuchdemo'' \<notin> set (found broken_world) \<and>
   stdout (launcher broken_world [''pymor-demo'', ''nosuchdemo'']) = [] \<and>
   final (launcher broken_world [''pymor-demo'', ''nosuchdemo'']) = ValueError"
proof -
  have "launcher broken_world [''pymor-demo''] = \<lparr>stdout = [], calls = [], final = ValueError\<rparr>"
    by (simp add: launcher_def broken_world_discovered)
  moreover have "launcher broken_world [''pymor-demo'', ''nosuchdemo''] =
      \<lparr>stdout = [], calls = [], final = ValueError\<rparr>"
    by (simp add: launcher_def broken_world_discovered)
  moreover have "''nosuchdemo'' \<notin> set (found broken_world)"
    by (simp add: broken_world_def)
  ultimately show ?thesis by simp
qed

text \<open>
  C7, amended. Let \<^verbatim>\<open>sys.argv\<close> be non-empty, as it is for a script. If the
  discovery loop ends with an exception, the launcher ends with it, having printed
  nothing and run nothing. If the loop completes, the launcher ends with exit status 0
  on every path of its own: the only other ending is an exception that the demo module
  itself raised. In particular, with fewer than two arguments, or a first argument
  that is not a discovered short name, no module is run, the text below is printed,
  with every short name in it, and the exit status is 0.
  \<^verbatim>\<open>
  Usage:
      {sys.argv[0]} DEMO_NAME | -h [DEMO_OPTIONS]

  Arguments:
      -h           this message
      DEMO_NAME    select one from these: {",".join(shorts)}
      DEMO_OPTIONS any arguments for the demo, including -h for detailed help
  \<close>
\<close>

theorem launcher_usage_exits_zero:
  assumes "argv \<noteq> []"
    and "r = launcher w argv"
  shows "(\<forall>e. discovered w = Inl e \<longrightarrow> final r = e \<and> stdout r = [] \<and> calls r = []) \<and>
         (\<forall>modules shorts. discovered w = Inr (modules, shorts) \<longrightarrow>
            (final r = SystemExit 0 \<or>
               (\<exists>c e. calls r = [c] \<and> demo w (module c) (argv_in_module c) = Raised e \<and>
                  final r = e)) \<and>
            (length argv < 2 \<or> argv ! 1 \<notin> set shorts \<longrightarrow>
               final r = SystemExit 0 \<and> calls r = [] \<and>
               stdout r =
                 [''Usage:'' @ [CHR 0x0A] @
                  ''    '' @ argv ! 0 @ '' DEMO_NAME | -h [DEMO_OPTIONS]'' @ [CHR 0x0A] @
                  [CHR 0x0A] @
                  ''Arguments:'' @ [CHR 0x0A] @
                  ''    -h           this message'' @ [CHR 0x0A] @
                  ''    DEMO_NAME    select one from these: '' @ join '','' shorts @ [CHR 0x0A] @
                  ''    DEMO_OPTIONS any arguments for the demo, including -h for detailed help'' @
                  [CHR 0x0A]] \<and>
               (\<forall>s\<in>set shorts. \<forall>out\<in>set (stdout r). sublist s out)))"
proof -
  from assms(1) obtain argv0 rest where a: "argv = argv0 # rest" by (cases argv) auto
  have failed: "\<forall>e. discovered w = Inl e \<longrightarrow> final r = e \<and> stdout r = [] \<and> calls r = []"
    using launcher_walk_error [of w _ argv0 rest] assms(2) a by auto
  have completed: "(final r = SystemExit 0 \<or>
               (\<exists>c e. calls r = [c] \<and> demo w (module c) (argv_in_module c) = Raised e \<and>
                  final r = e)) \<and>
            (length argv < 2 \<or> argv ! 1 \<notin> set shorts \<longrightarrow>
               final r = SystemExit 0 \<and> calls r = [] \<and>
               stdout r =
                 [''Usage:'' @ [CHR 0x0A] @
                  ''    '' @ argv ! 0 @ '' DEMO_NAME | -h [DEMO_OPTIONS]'' @ [CHR 0x0A] @
                  [CHR 0x0A] @
                  ''Arguments:'' @ [CHR 0x0A] @
                  ''    -h           this message'' @ [CHR 0x0A] @
                  ''    DEMO_NAME    select one from these: '' @ join '','' shorts @ [CHR 0x0A] @
                  ''    DEMO_OPTIONS any arguments for the demo, including -h for detailed help'' @
                  [CHR 0x0A]] \<and>
               (\<forall>s\<in>set shorts. \<forall>out\<in>set (stdout r). sublist s out))"
    if d: "discovered w = Inr (modules, shorts)" for modules shorts
  proof -
    from discovered_Inr [OF d] have m: "modules = map (\<lambda>n. ''pymordemos.'' @ n) shorts"
      by simp
    have listed: "\<forall>s\<in>set shorts. sublist s (usage_msg argv0 shorts)"
    proof
      fix s assume "s \<in> set shorts"
      then have "sublist s (join '','' shorts)" by (rule join_mem_sublist)
      then show "sublist s (usage_msg argv0 shorts)"
        unfolding usage_msg_def by (simp only: sublist_append) simp
    qed
    have usage_case: "r = usage argv0 shorts []"
      if "length argv < 2 \<or> argv ! 1 \<notin> set shorts"
      using launcher_usage [OF d, of argv0 rest] that assms(2) a by simp
    have second: "length argv < 2 \<or> argv ! 1 \<notin> set shorts \<longrightarrow>
               final r = SystemExit 0 \<and> calls r = [] \<and>
               stdout r =
                 [''Usage:'' @ [CHR 0x0A] @
                  ''    '' @ argv ! 0 @ '' DEMO_NAME | -h [DEMO_OPTIONS]'' @ [CHR 0x0A] @
                  [CHR 0x0A] @
                  ''Arguments:'' @ [CHR 0x0A] @
                  ''    -h           this message'' @ [CHR 0x0A] @
                  ''    DEMO_NAME    select one from these: '' @ join '','' shorts @ [CHR 0x0A] @
                  ''    DEMO_OPTIONS any arguments for the demo, including -h for detailed help'' @
                  [CHR 0x0A]] \<and>
               (\<forall>s\<in>set shorts. \<forall>out\<in>set (stdout r). sublist s out)"
    proof
      assume u: "length argv < 2 \<or> argv ! 1 \<notin> set shorts"
      from usage_case [OF u] have ru: "r = usage argv0 shorts []" .
      have o: "stdout r = [usage_msg argv0 shorts]" unfolding ru by (simp add: usage_def)
      have f: "final r = SystemExit 0" "calls r = []" unfolding ru by (simp_all add: usage_def)
      have t: "usage_msg argv0 shorts =
                 ''Usage:'' @ [CHR 0x0A] @
                  ''    '' @ argv ! 0 @ '' DEMO_NAME | -h [DEMO_OPTIONS]'' @ [CHR 0x0A] @
                  [CHR 0x0A] @
                  ''Arguments:'' @ [CHR 0x0A] @
                  ''    -h           this message'' @ [CHR 0x0A] @
                  ''    DEMO_NAME    select one from these: '' @ join '','' shorts @ [CHR 0x0A] @
                  ''    DEMO_OPTIONS any arguments for the demo, including -h for detailed help'' @
                  [CHR 0x0A]"
        by (simp add: usage_msg_def nl_def a)
      from listed o have "\<forall>s\<in>set shorts. \<forall>out\<in>set (stdout r). sublist s out" by simp
      with f o t show "final r = SystemExit 0 \<and> calls r = [] \<and>
               stdout r =
                 [''Usage:'' @ [CHR 0x0A] @
                  ''    '' @ argv ! 0 @ '' DEMO_NAME | -h [DEMO_OPTIONS]'' @ [CHR 0x0A] @
                  [CHR 0x0A] @
                  ''Arguments:'' @ [CHR 0x0A] @
                  ''    -h           this message'' @ [CHR 0x0A] @
                  ''    DEMO_NAME    select one from these: '' @ join '','' shorts @ [CHR 0x0A] @
                  ''    DEMO_OPTIONS any arguments for the demo, including -h for detailed help'' @
                  [CHR 0x0A]] \<and>
               (\<forall>s\<in>set shorts. \<forall>out\<in>set (stdout r). sublist s out)"
        by simp
    qed
    have first: "final r = SystemExit 0 \<or>
             (\<exists>c e. calls r = [c] \<and> demo w (module c) (argv_in_module c) = Raised e \<and>
                final r = e)"
    proof (cases "length argv < 2 \<or> argv ! 1 \<notin> set shorts")
      case True
      with second show ?thesis by blast
    next
      case False
      then have len: "2 \<le> length argv" and mem: "argv ! 1 \<in> set shorts" by auto
      from index_first [OF mem] obtain j
        where j: "index shorts (argv ! 1) = Inr j" "j < length shorts" by blast
      with m have jm: "j < length modules" by simp
      have r: "r = run w argv [] (modules ! j)"
        using assms(2) a len mem j(1) jm by (auto simp add: launcher_def d)
      show ?thesis
        unfolding r using len
        by (cases "demo w (modules ! j)
              (run_module_argv (origin w (modules ! j)) True (take 1 argv @ drop 2 argv))")
          (simp_all add: run_def Let_def)
    qed
    from first second show ?thesis by blast
  qed
  from failed completed show ?thesis by blast
qed

theorem launcher_usage_exits_zero_witness:
  "final (launcher demo_world [''pymor-demo'']) = SystemExit 0 \<and>
   calls (launcher demo_world [''pymor-demo'']) = [] \<and>
   stdout (launcher demo_world [''pymor-demo'']) =
     [''Usage:'' @ [CHR 0x0A] @
      ''    pymor-demo DEMO_NAME | -h [DEMO_OPTIONS]'' @ [CHR 0x0A] @
      [CHR 0x0A] @
      ''Arguments:'' @ [CHR 0x0A] @
      ''    -h           this message'' @ [CHR 0x0A] @
      ''    DEMO_NAME    select one from these: burgers,thermalblock'' @ [CHR 0x0A] @
      ''    DEMO_OPTIONS any arguments for the demo, including -h for detailed help'' @
      [CHR 0x0A]] \<and>
   final (launcher demo_world [''pymor-demo'', ''-h'', ''burgers'']) = SystemExit 0 \<and>
   calls (launcher demo_world [''pymor-demo'', ''-h'', ''burgers'']) = [] \<and>
   final (launcher broken_world [''pymor-demo'']) = ValueError \<and>
   stdout (launcher broken_world [''pymor-demo'']) = []"
proof -
  have n1: "[''pymor-demo''] \<noteq> ([]::string list)" by simp
  have n2: "[''pymor-demo'', ''-h'', ''burgers''] \<noteq> ([]::string list)" by simp
  from launcher_usage_exits_zero [OF n1 refl, of demo_world] demo_world_discovered
  have one: "final (launcher demo_world [''pymor-demo'']) = SystemExit 0 \<and>
     calls (launcher demo_world [''pymor-demo'']) = [] \<and>
     stdout (launcher demo_world [''pymor-demo'']) =
       [''Usage:'' @ [CHR 0x0A] @
        ''    pymor-demo DEMO_NAME | -h [DEMO_OPTIONS]'' @ [CHR 0x0A] @
        [CHR 0x0A] @
        ''Arguments:'' @ [CHR 0x0A] @
        ''    -h           this message'' @ [CHR 0x0A] @
        ''    DEMO_NAME    select one from these: burgers,thermalblock'' @ [CHR 0x0A] @
        ''    DEMO_OPTIONS any arguments for the demo, including -h for detailed help'' @
        [CHR 0x0A]]"
    by simp
  from launcher_usage_exits_zero [OF n2 refl, of demo_world] demo_world_discovered
  have two: "final (launcher demo_world [''pymor-demo'', ''-h'', ''burgers'']) = SystemExit 0 \<and>
     calls (launcher demo_world [''pymor-demo'', ''-h'', ''burgers'']) = []"
    by simp
  from launcher_usage_exits_zero [OF n1 refl, of broken_world] broken_world_discovered
  have three: "final (launcher broken_world [''pymor-demo'']) = ValueError \<and>
     stdout (launcher broken_world [''pymor-demo'']) = []"
    by simp
  from one two three show ?thesis by simp
qed

text \<open>
  C8, as stated: the demo module finds \<^verbatim>\<open>sys.argv\<close> equal to the program name
  followed by the remaining options. It does not: \<^verbatim>\<open>run_module\<close> is called
  with \<^verbatim>\<open>alter_sys=True\<close>, so position 0 holds the module's file.
\<close>

theorem launcher_demo_argv_counterexample:
  "map argv_in_module (calls (launcher demo_world [''pymor-demo'', ''burgers'', ''1''])) =
     [[''/site-packages/pymordemos/burgers.py'', ''1'']] \<and>
   map argv_in_module (calls (launcher demo_world [''pymor-demo'', ''burgers'', ''1''])) \<noteq>
     [[''pymor-demo'', ''1'']]"
proof -
  have "launcher demo_world [''pymor-demo'', ''burgers'', ''1''] =
        run demo_world [''pymor-demo'', ''burgers'', ''1''] [] ''pymordemos.burgers''"
    by (simp add: launcher_def demo_world_discovered)
  then show ?thesis
    by (simp add: run_def Let_def run_module_argv_def demo_world_def)
qed

text \<open>
  C8, amended. \<^verbatim>\<open>del sys.argv[1]\<close> removes the element at index 1 and nothing
  else: when \<^verbatim>\<open>run_module\<close> is called, \<^verbatim>\<open>sys.argv\<close> is the program name
  followed by the unchanged remaining options, one element shorter than before. The
  demo module finds the same options, unchanged and in the same order, after position 0,
  which holds the module's file for the duration of the run.
\<close>

theorem launcher_removes_demo_name:
  assumes "2 \<le> length argv"
  shows "\<exists>c. calls (run w argv out m) = [c] \<and> alter_sys c \<and>
           argv_at_call c = argv ! 0 # drop 2 argv \<and>
           length (argv_at_call c) = length argv - 1 \<and>
           argv_in_module c = origin w m # drop 2 argv \<and>
           tl (argv_in_module c) = tl (argv_at_call c)"
proof -
  from assms obtain a b rest where argv: "argv = a # b # rest"
    by (cases argv; cases "tl argv") auto
  show ?thesis
    using run_calls [OF assms, of w out m]
    by (simp add: argv run_module_argv_def)
qed

theorem launcher_removes_demo_name_witness:
  "(2::nat) \<le> length [''pymor-demo'', ''burgers'', ''1'', ''--plot''] \<and>
   map argv_at_call (calls (run demo_world [''pymor-demo'', ''burgers'', ''1'', ''--plot''] []
      ''pymordemos.burgers'')) = [[''pymor-demo'', ''1'', ''--plot'']] \<and>
   map argv_in_module (calls (run demo_world [''pymor-demo'', ''burgers'', ''1'', ''--plot''] []
      ''pymordemos.burgers'')) = [[''/site-packages/pymordemos/burgers.py'', ''1'', ''--plot'']]"
proof -
  have l: "(2::nat) \<le> length [''pymor-demo'', ''burgers'', ''1'', ''--plot'']" by simp
  from launcher_removes_demo_name [OF l, of demo_world "[]" "''pymordemos.burgers''"]
  show ?thesis by (auto simp add: demo_world_def)
qed

section \<open>Properties of the wheel-building script\<close>

subsection \<open>Substitution\<close>

lemma join_Cons: "segs \<noteq> [] \<Longrightarrow> join sep (g # segs) = g @ sep @ join sep segs"
  by (cases segs) simp_all

lemma occurrences_skip:
  "pat \<noteq> [] \<Longrightarrow> hd pat \<notin> set xs \<Longrightarrow> occurrences pat (xs @ ys) = occurrences pat ys"
proof (induction xs)
  case Nil
  show ?case by simp
next
  case (Cons x xs)
  from Cons.prems have "\<not> prefix pat (x # xs @ ys)"
    by (cases pat) auto
  with Cons show ?case by simp
qed

lemma occurrences_at_match:
  assumes "pat \<noteq> []" and "hd pat \<notin> set (tl pat)"
  shows "occurrences pat (pat @ ys) = Suc (occurrences pat ys)"
proof -
  from assms(1) obtain a p' where p: "pat = a # p'" by (cases pat) auto
  with assms(2) have "hd pat \<notin> set p'" by simp
  from occurrences_skip [OF assms(1) this, of ys]
  have "occurrences pat (p' @ ys) = occurrences pat ys" .
  moreover have "pat @ ys = a # (p' @ ys)" using p by simp
  then have "occurrences pat (pat @ ys) =
               (if prefix pat (pat @ ys) then 1 else 0) + occurrences pat (p' @ ys)"
    by (metis occurrences.simps(2))
  ultimately show ?thesis by simp
qed

lemma subst_all_segments:
  assumes "pat \<noteq> []" and "hd pat \<notin> set (tl pat)"
  shows "\<exists>segs. length segs = Suc (occurrences pat cfg) \<and> cfg = join pat segs \<and>
            subst_all pat rep cfg = join rep segs \<and> (\<forall>g\<in>set segs. \<not> sublist pat g)"
  using assms
proof (induction pat rep cfg rule: subst_all.induct)
  case (1 pat rep)
  then have "length [[]] = Suc (occurrences pat []) \<and> [] = join pat [[]] \<and>
            subst_all pat rep [] = join rep [[]] \<and> (\<forall>g\<in>set [[]]. \<not> sublist pat g)"
    by simp
  then show ?case by blast
next
  case (2 pat rep c cs)
  show ?case
  proof (cases "prefix pat (c # cs)")
    case True
    with "2.prems" have cond: "pat \<noteq> [] \<and> prefix pat (c # cs)" by simp
    from "2.IH"(1) [OF cond "2.prems"] obtain segs
      where segs: "length segs = Suc (occurrences pat (drop (length pat) (c # cs)))"
      "drop (length pat) (c # cs) = join pat segs"
      "subst_all pat rep (drop (length pat) (c # cs)) = join rep segs"
      "\<forall>g\<in>set segs. \<not> sublist pat g"
      by blast
    from segs(1) have ne: "segs \<noteq> []" by auto
    from True have whole: "c # cs = pat @ drop (length pat) (c # cs)"
      by (metis append_eq_conv_conj prefix_def)
    have s0: "length ([] # segs) = Suc (occurrences pat (c # cs))"
      using occurrences_at_match [OF "2.prems", of "drop (length pat) (c # cs)"] whole segs(1)
      by simp
    have s1: "subst_all pat rep (c # cs) = rep @ subst_all pat rep (drop (length pat) (c # cs))"
      using cond by simp
    have s2: "subst_all pat rep (c # cs) = join rep ([] # segs)"
      unfolding s1 segs(3) using ne by (simp add: join_Cons)
    have s3: "c # cs = join pat ([] # segs)"
      using whole ne unfolding segs(2) by (simp add: join_Cons)
    have s4: "\<forall>g\<in>set ([] # segs). \<not> sublist pat g"
      using segs(4) "2.prems" by simp
    from s0 s2 s3 s4 have "length ([] # segs) = Suc (occurrences pat (c # cs)) \<and>
          c # cs = join pat ([] # segs) \<and>
          subst_all pat rep (c # cs) = join rep ([] # segs) \<and>
          (\<forall>g\<in>set ([] # segs). \<not> sublist pat g)"
      by blast
    then show ?thesis by blast
  next
    case False
    then have cond: "\<not> (pat \<noteq> [] \<and> prefix pat (c # cs))" by simp
    from "2.IH"(2) [OF cond "2.prems"] obtain segs
      where segs: "length segs = Suc (occurrences pat cs)"
      "cs = join pat segs" "subst_all pat rep cs = join rep segs"
      "\<forall>g\<in>set segs. \<not> sublist pat g"
      by blast
    from segs(1) obtain g gs where ggs: "segs = g # gs" by (cases segs) auto
    have pre: "prefix (c # g) (c # cs)"
      using segs(2) ggs by (cases gs) simp_all
    have nsub: "\<not> sublist pat (c # g)"
    proof
      assume "sublist pat (c # g)"
      then have "prefix pat (c # g) \<or> sublist pat g" by (simp add: sublist_Cons_right)
      then show False
      proof
        assume "prefix pat (c # g)"
        with pre have "prefix pat (c # cs)" by (meson prefix_order.trans)
        with False show False by simp
      next
        assume "sublist pat g"
        with segs(4) ggs show False by simp
      qed
    qed
    have "length ((c # g) # gs) = Suc (occurrences pat (c # cs)) \<and>
          c # cs = join pat ((c # g) # gs) \<and>
          subst_all pat rep (c # cs) = join rep ((c # g) # gs) \<and>
          (\<forall>x\<in>set ((c # g) # gs). \<not> sublist pat x)"
      using segs ggs nsub False by (cases gs) simp_all
    then show ?thesis by blast
  qed
qed

lemma split_hd_in_tl:
  assumes "xs = p1 @ p2" "p1 \<noteq> []" "p2 \<noteq> []"
  shows "hd p2 \<in> set (tl xs)"
proof -
  from assms(2) obtain a p1' where "p1 = a # p1'" by (cases p1) auto
  with assms(1) have "tl xs = p1' @ p2" by simp
  with assms(3) show ?thesis by (cases p2) auto
qed

lemma join_free:
  assumes pat: "pat \<noteq> []" and rep: "rep \<noteq> []"
    and a: "hd rep \<notin> set (tl pat)"
    and c: "hd pat \<notin> set (tl rep)"
    and d: "\<not> prefix rep pat"
    and b: "\<not> sublist pat rep"
    and segs: "\<forall>g\<in>set segs. \<not> sublist pat g"
  shows "\<not> sublist pat (join rep segs)"
  using rep a c d b segs
proof (induction rep segs rule: join.induct)
  case (1 sep)
  with pat show ?case by simp
next
  case (2 sep x)
  then show ?case by simp
next
  case (3 sep x y ys)
  define rest where "rest = join sep (y # ys)"
  from "3.prems"(1) have sep: "sep \<noteq> []" .
  have nx: "\<not> sublist pat x" using "3.prems" by simp
  have nrest: "\<not> sublist pat rest"
    unfolding rest_def using "3.IH" "3.prems" by simp
  have second: "\<not> sublist pat (sep @ rest)"
  proof
    assume "sublist pat (sep @ rest)"
    then consider "sublist pat sep" | "sublist pat rest"
      | p1 p2 where "pat = p1 @ p2" "suffix p1 sep" "prefix p2 rest"
      by (auto simp add: sublist_append)
    then show False
    proof cases
      case 1
      with "3.prems" show False by simp
    next
      case 2
      with nrest show False by simp
    next
      case 3
      show False
      proof (cases "p1 = []")
        case True
        with 3 have "prefix pat rest" by simp
        then have "sublist pat rest" by (rule prefix_imp_sublist)
        with nrest show False by simp
      next
        case False
        from 3(2) obtain q where q: "sep = q @ p1" by (auto simp add: suffix_def)
        from False 3(1) have hp: "hd p1 = hd pat" by (cases p1) auto
        show False
        proof (cases "q = []")
          case True
          with q 3(1) have "prefix sep pat" by simp
          with "3.prems" show False by simp
        next
          case qne: False
          from split_hd_in_tl [OF q qne False] hp have "hd pat \<in> set (tl sep)" by simp
          with "3.prems" show False by simp
        qed
      qed
    qed
  qed
  have "\<not> sublist pat (x @ sep @ rest)"
  proof
    assume "sublist pat (x @ sep @ rest)"
    then consider "sublist pat x" | "sublist pat (sep @ rest)"
      | p1 p2 where "pat = p1 @ p2" "suffix p1 x" "prefix p2 (sep @ rest)"
      by (auto simp add: sublist_append)
    then show False
    proof cases
      case 1
      with nx show False by simp
    next
      case 2
      with second show False by simp
    next
      case 3
      show False
      proof (cases "p1 = []")
        case True
        with 3 have "prefix pat (sep @ rest)" by simp
        then have "sublist pat (sep @ rest)" by (rule prefix_imp_sublist)
        with second show False by simp
      next
        case False
        show False
        proof (cases "p2 = []")
          case True
          with 3 have "suffix pat x" by simp
          then have "sublist pat x" by (rule suffix_imp_sublist)
          with nx show False by simp
        next
          case p2: False
          from 3(3) p2 sep have "hd p2 = hd sep"
            by (cases p2; cases sep) (auto simp add: prefix_def)
          moreover from split_hd_in_tl [OF 3(1) False p2] have "hd p2 \<in> set (tl pat)" .
          ultimately show False using "3.prems" by simp
        qed
      qed
    qed
  qed
  then show ?case by (simp add: rest_def)
qed

lemma sed_pattern: "unescape sed_regexp = ''style = pep440''"
  by (simp add: sed_regexp_def bs_def)

lemma sed_replacement_text: "unescape sed_replacement = ''style = ci_wheel_builder''"
  by (simp add: sed_replacement_def bs_def)

lemma style_not_left:
  "\<forall>g\<in>set segs. \<not> sublist ''style = pep440'' g \<Longrightarrow>
   \<not> sublist ''style = pep440'' (join ''style = ci_wheel_builder'' segs)"
  by (rule join_free) (simp_all add: sublist_Cons_right)

subsection \<open>Execution up to the first failure\<close>

lemma build_loop_run_cmds:
  "build_loop w wh oses s = run_cmds w (map (docker_build w wh) oses) s"
  by (induction oses arbitrary: s) (simp_all split: prod.splits option.splits)

lemma build_wheels_pipeline:
  assumes "env w ''SHARED_PATH'' = Some wh" "env w ''PYVER'' = Some v" "env w ''TEST_OS'' = Some t"
  shows "build_wheels w s =
     run_cmds w ([[''pwd'', ''-P''],
      [''cd'', pymor_root w],
      [''mkdir'', ''-p''] @ words_of w wh,
      docker_pull w (''pymor/wheelbuilder:py'' @ v),
      docker_run w wh (''pymor/wheelbuilder:py'' @ v),
      cp_dockerfile w wh] @
     map (docker_build w wh) (words_of w t)) s"
  by (simp add: build_wheels_def assms build_loop_run_cmds and_then_def Let_def
      split: prod.splits option.splits)

lemma ci_script_pipeline:
  assumes "env w ''SHARED_PATH'' = Some wh" "env w ''PYVER'' = Some v" "env w ''TEST_OS'' = Some t"
  shows "ci_script w s0 = run_cmds w (pipeline w wh v t) s0"
proof -
  have "build_wheels w = run_cmds w ([[''pwd'', ''-P''],
      [''cd'', pymor_root w],
      [''mkdir'', ''-p''] @ words_of w wh,
      docker_pull w (''pymor/wheelbuilder:py'' @ v),
      docker_run w wh (''pymor/wheelbuilder:py'' @ v),
      cp_dockerfile w wh] @
     map (docker_build w wh) (words_of w t))"
    using build_wheels_pipeline [OF assms] by blast
  then show ?thesis
    unfolding ci_script_def pipeline_def set_version_style_def
    by (simp add: and_then_def split: prod.splits option.splits)
qed

lemma exec_trace: "trace (fst (exec w c s)) = trace s @ [c]"
  by (simp add: exec_def effect_def)

lemma exec_ok: "snd (exec w c s) = None \<Longrightarrow> ok w (length (trace s)) c"
  by (simp add: exec_def succeeds_def split: if_splits)

lemma exec_stop: "snd (exec w c s) = Some e \<Longrightarrow> e = Failed c \<and> \<not> succeeds w c s"
  by (simp add: exec_def split: if_splits)

lemma run_cmds_trace:
  "run_cmds w cs s = (s', e) \<Longrightarrow>
   \<exists>n. n \<le> length cs \<and> trace s' = trace s @ take n cs \<and>
       (e = None \<longrightarrow> n = length cs \<and> (\<forall>i<n. ok w (length (trace s) + i) (cs ! i))) \<and>
       (\<forall>x. e = Some x \<longrightarrow> 0 < n \<and> x = Failed (cs ! (n - 1)) \<and>
              \<not> (ok w (length (trace s) + (n - 1)) (cs ! (n - 1)) \<and> cs ! (n - 1) \<noteq> sed_cmd)) \<and>
       (\<forall>i. Suc i < n \<longrightarrow> ok w (length (trace s) + i) (cs ! i))"
proof (induction cs arbitrary: s)
  case Nil
  then show ?case by simp
next
  case (Cons c cs)
  obtain s1 e1 where x: "exec w c s = (s1, e1)" by (cases "exec w c s")
  show ?case
  proof (cases e1)
    case None
    with x Cons.prems have "run_cmds w cs s1 = (s', e)" by simp
    from Cons.IH [OF this] obtain n where n: "n \<le> length cs" "trace s' = trace s1 @ take n cs"
      "e = None \<longrightarrow> n = length cs \<and> (\<forall>i<n. ok w (length (trace s1) + i) (cs ! i))"
      "\<forall>x. e = Some x \<longrightarrow> 0 < n \<and> x = Failed (cs ! (n - 1)) \<and>
              \<not> (ok w (length (trace s1) + (n - 1)) (cs ! (n - 1)) \<and> cs ! (n - 1) \<noteq> sed_cmd)"
      "\<forall>i. Suc i < n \<longrightarrow> ok w (length (trace s1) + i) (cs ! i)"
      by blast
    from x have t1: "trace s1 = trace s @ [c]" using exec_trace [of w c s] by simp
    from x None have okc: "ok w (length (trace s)) c" using exec_ok [of w c s] by simp
    have "Suc n \<le> length (c # cs) \<and> trace s' = trace s @ take (Suc n) (c # cs) \<and>
       (e = None \<longrightarrow> Suc n = length (c # cs) \<and>
          (\<forall>i<Suc n. ok w (length (trace s) + i) ((c # cs) ! i))) \<and>
       (\<forall>x. e = Some x \<longrightarrow> 0 < Suc n \<and> x = Failed ((c # cs) ! (Suc n - 1)) \<and>
              \<not> (ok w (length (trace s) + (Suc n - 1)) ((c # cs) ! (Suc n - 1)) \<and>
                 (c # cs) ! (Suc n - 1) \<noteq> sed_cmd)) \<and>
       (\<forall>i. Suc i < Suc n \<longrightarrow> ok w (length (trace s) + i) ((c # cs) ! i))"
      using n t1 okc by (auto simp add: nth_Cons split: nat.splits)
    then show ?thesis by blast
  next
    case (Some x1)
    with x Cons.prems have r: "s' = s1" "e = Some x1" by simp_all
    from x Some have f: "x1 = Failed c" "\<not> succeeds w c s" using exec_stop [of w c s x1] by simp_all
    from x have t1: "trace s1 = trace s @ [c]" using exec_trace [of w c s] by simp
    have "Suc 0 \<le> length (c # cs) \<and> trace s' = trace s @ take (Suc 0) (c # cs) \<and>
       (e = None \<longrightarrow> Suc 0 = length (c # cs) \<and>
          (\<forall>i<Suc 0. ok w (length (trace s) + i) ((c # cs) ! i))) \<and>
       (\<forall>x. e = Some x \<longrightarrow> 0 < Suc 0 \<and> x = Failed ((c # cs) ! (Suc 0 - 1)) \<and>
              \<not> (ok w (length (trace s) + (Suc 0 - 1)) ((c # cs) ! (Suc 0 - 1)) \<and>
                 (c # cs) ! (Suc 0 - 1) \<noteq> sed_cmd)) \<and>
       (\<forall>i. Suc i < Suc 0 \<longrightarrow> ok w (length (trace s) + i) ((c # cs) ! i))"
      using r f t1 by (auto simp add: succeeds_def split: if_splits)
    then show ?thesis by blast
  qed
qed

lemma effect_cfg_None: "(setup_cfg (effect c s) = None) = (setup_cfg s = None)"
  by (simp add: effect_def)

lemma run_cmds_all_ok:
  "\<forall>i<length cs. ok w (length (trace s) + i) (cs ! i) \<Longrightarrow>
   sed_cmd \<notin> set cs \<or> setup_cfg s \<noteq> None \<Longrightarrow>
   snd (run_cmds w cs s) = None"
proof (induction cs arbitrary: s)
  case Nil
  show ?case by simp
next
  case (Cons c cs)
  from Cons.prems(1) have okc: "ok w (length (trace s)) c" by auto
  with Cons.prems(2) have su: "succeeds w c s" by (auto simp add: succeeds_def)
  define s1 where "s1 = (effect c s)\<lparr>trace := trace s @ [c]\<rparr>"
  from su have x: "exec w c s = (s1, None)" by (simp add: exec_def s1_def)
  have t1: "trace s1 = trace s @ [c]" by (simp add: s1_def)
  have a: "\<forall>i<length cs. ok w (length (trace s1) + i) (cs ! i)"
  proof (intro allI impI)
    fix i assume "i < length cs"
    then have "Suc i < length (c # cs)" by simp
    with Cons.prems(1) have "ok w (length (trace s) + Suc i) ((c # cs) ! Suc i)" by blast
    then show "ok w (length (trace s1) + i) (cs ! i)" by (simp add: t1)
  qed
  have b: "sed_cmd \<notin> set cs \<or> setup_cfg s1 \<noteq> None"
    using Cons.prems(2) by (auto simp add: s1_def effect_cfg_None)
  from Cons.IH [OF a b] x show ?case by simp
qed

lemma split_ifs_plain:
  "list_all (\<lambda>c. \<not> is_ifs c) x \<Longrightarrow> split_ifs cur x = (if cur @ x = [] then [] else [cur @ x])"
  by (induction x arbitrary: cur) simp_all

lemma words_of_plain:
  assumes "x \<noteq> []" and "\<not> has_pattern x" and "list_all (\<lambda>c. \<not> is_ifs c) x"
  shows "words_of w x = [x]"
proof -
  from assms(1,3) have "split_ifs [] x = [x]" by (simp add: split_ifs_plain)
  with assms(2) show ?thesis by (simp add: words_of_def)
qed

lemma split_ifs_words:
  "list_all (\<lambda>c. \<not> is_ifs c) cur \<Longrightarrow> x \<in> set (split_ifs cur s) \<Longrightarrow>
   x \<noteq> [] \<and> list_all (\<lambda>c. \<not> is_ifs c) x \<and> set x \<subseteq> set cur \<union> set s"
proof (induction cur s rule: split_ifs.induct)
  case (1 cur)
  then show ?case by (auto split: if_splits)
next
  case (2 cur c cs)
  show ?case
  proof (cases "is_ifs c")
    case True
    show ?thesis
    proof (cases "cur = []")
      case e: True
      with True "2.prems" have "x \<in> set (split_ifs [] cs)" by simp
      from "2.IH"(1) [OF True e _ this] show ?thesis by auto
    next
      case ne: False
      with True "2.prems" have "x = cur \<or> x \<in> set (split_ifs [] cs)" by simp
      then show ?thesis
      proof
        assume "x = cur"
        with ne "2.prems"(1) show ?thesis by auto
      next
        assume "x \<in> set (split_ifs [] cs)"
        from "2.IH"(2) [OF True ne _ this] show ?thesis by auto
      qed
    qed
  next
    case False
    with "2.prems" have x: "x \<in> set (split_ifs (cur @ [c]) cs)" by simp
    from False "2.prems"(1) have "list_all (\<lambda>c. \<not> is_ifs c) (cur @ [c])" by simp
    from "2.IH"(3) [OF False this x] show ?thesis by auto
  qed
qed

lemma words_of_no_pattern:
  assumes "\<not> has_pattern t"
  shows "words_of w t = split_ifs [] t"
    and "x \<in> set (split_ifs [] t) \<Longrightarrow>
           x \<noteq> [] \<and> \<not> has_pattern x \<and> list_all (\<lambda>c. \<not> is_ifs c) x"
proof -
  have plain: "x \<noteq> [] \<and> \<not> has_pattern x \<and> list_all (\<lambda>c. \<not> is_ifs c) x"
    if "x \<in> set (split_ifs [] t)" for x
  proof -
    from split_ifs_words [of "[]" x t] that
    have a: "x \<noteq> []" "list_all (\<lambda>c. \<not> is_ifs c) x" "set x \<subseteq> set t" by auto
    from assms a(3) have "\<not> has_pattern x" by (auto simp add: has_pattern_def list_ex_iff)
    with a show ?thesis by simp
  qed
  then show "x \<in> set (split_ifs [] t) \<Longrightarrow>
           x \<noteq> [] \<and> \<not> has_pattern x \<and> list_all (\<lambda>c. \<not> is_ifs c) x" .
  have eq: "map (\<lambda>x. if has_pattern x then glob w x else [x]) (split_ifs [] t) =
        map (\<lambda>x. [x]) (split_ifs [] t)"
    using plain by (intro map_cong) auto
  show "words_of w t = split_ifs [] t" unfolding words_of_def eq by simp
qed

lemma pipeline_plain:
  assumes wh: "wh \<noteq> []" "\<not> has_pattern wh" "list_all (\<lambda>c. \<not> is_ifs c) wh"
    and v: "\<not> has_pattern v" "list_all (\<lambda>c. \<not> is_ifs c) v"
    and root: "\<not> has_pattern (pymor_root w)" "list_all (\<lambda>c. \<not> is_ifs c) (pymor_root w)"
    and uid: "\<not> has_pattern (uid w)" "list_all (\<lambda>c. \<not> is_ifs c) (uid w)"
    and t: "\<not> has_pattern t"
  shows "pipeline w wh v t =
     (if param (env w ''CI_COMMIT_TAG'') = [] then [sed_cmd] else []) @
     [[''pwd'', ''-P''],
      [''cd'', pymor_root w],
      [''mkdir'', ''-p'', wh],
      [''docker'', ''pull'', ''pymor/wheelbuilder:py'' @ v],
      [''docker'', ''run'', ''--rm'', ''-t'', ''-e'', ''LOCAL_USER_ID='' @ uid w,
       ''-v'', wh @ '':/io/wheelhouse'', ''-v'', pymor_root w @ '':/io/pymor'',
       ''pymor/wheelbuilder:py'' @ v, ''/usr/local/bin/build-wheels.sh''],
      [''cp'', pymor_root w @ ''/.ci/docker/deploy_checks/Dockerfile'', wh]] @
     map (\<lambda>os. [''docker'', ''build'', ''--build-arg'', ''tag='' @ os, wh]) (split_ifs [] t)"
proof -
  have w1: "words_of w wh = [wh]" using wh by (rule words_of_plain)
  have w2: "words_of w (''pymor/wheelbuilder:py'' @ v) = [''pymor/wheelbuilder:py'' @ v]"
    using v by (intro words_of_plain) (simp_all add: has_pattern_def is_ifs_def)
  have w3: "words_of w (''LOCAL_USER_ID='' @ uid w) = [''LOCAL_USER_ID='' @ uid w]"
    using uid by (intro words_of_plain) (simp_all add: has_pattern_def is_ifs_def)
  have w4: "words_of w (wh @ '':/io/wheelhouse'') = [wh @ '':/io/wheelhouse'']"
    using wh by (intro words_of_plain) (simp_all add: has_pattern_def is_ifs_def)
  have w5: "words_of w (pymor_root w @ '':/io/pymor'') = [pymor_root w @ '':/io/pymor'']"
    using root by (intro words_of_plain) (simp_all add: has_pattern_def is_ifs_def)
  have w6: "words_of w (pymor_root w @ ''/.ci/docker/deploy_checks/Dockerfile'') =
            [pymor_root w @ ''/.ci/docker/deploy_checks/Dockerfile'']"
    using root by (intro words_of_plain) (simp_all add: has_pattern_def is_ifs_def)
  have w7: "words_of w t = split_ifs [] t" using t by (rule words_of_no_pattern(1))
  have w8: "words_of w (''tag='' @ os) = [''tag='' @ os]" if "os \<in> set (split_ifs [] t)" for os
    using words_of_no_pattern(2) [OF t that]
    by (intro words_of_plain) (simp_all add: has_pattern_def is_ifs_def)
  have builds: "map (docker_build w wh) (split_ifs [] t) =
      map (\<lambda>os. [''docker'', ''build'', ''--build-arg'', ''tag='' @ os, wh]) (split_ifs [] t)"
    using w8 by (intro map_cong) (simp_all add: docker_build_def w1)
  show ?thesis
    unfolding pipeline_def docker_pull_def docker_run_def cp_dockerfile_def w1 w2 w3 w4 w5 w6 w7
      builds
    by simp
qed

lemma pipeline_words:
  "pipeline w wh v t =
     (if param (env w ''CI_COMMIT_TAG'') = [] then [sed_cmd] else []) @
     [[''pwd'', ''-P''],
      [''cd'', pymor_root w],
      [''mkdir'', ''-p''] @ words_of w wh,
      [''docker'', ''pull''] @ words_of w (''pymor/wheelbuilder:py'' @ v),
      [''docker'', ''run'', ''--rm'', ''-t'', ''-e''] @ words_of w (''LOCAL_USER_ID='' @ uid w) @
        [''-v''] @ words_of w (wh @ '':/io/wheelhouse'') @
        [''-v''] @ words_of w (pymor_root w @ '':/io/pymor'') @
        words_of w (''pymor/wheelbuilder:py'' @ v) @ [''/usr/local/bin/build-wheels.sh''],
      [''cp''] @ words_of w (pymor_root w @ ''/.ci/docker/deploy_checks/Dockerfile'') @
        words_of w wh] @
     map (\<lambda>os. [''docker'', ''build'', ''--build-arg''] @ words_of w (''tag='' @ os) @
                 words_of w wh) (words_of w t)"
proof -
  have "map (docker_build w wh) (words_of w t) =
        map (\<lambda>os. [''docker'', ''build'', ''--build-arg''] @ words_of w (''tag='' @ os) @
                 words_of w wh) (words_of w t)"
    by (intro map_cong) (simp_all add: docker_build_def)
  then show ?thesis
    unfolding pipeline_def docker_pull_def docker_run_def cp_dockerfile_def by simp
qed

lemma ci_world_pipeline:
  "pipeline ci_world ''/shared/wheels'' ''3.7'' ''debian_buster  centos_8'' =
     [sed_cmd, [''pwd'', ''-P''], [''cd'', ''/builds/pymor''],
      [''mkdir'', ''-p'', ''/shared/wheels''],
      [''docker'', ''pull'', ''pymor/wheelbuilder:py3.7''],
      [''docker'', ''run'', ''--rm'', ''-t'', ''-e'', ''LOCAL_USER_ID=1000'',
       ''-v'', ''/shared/wheels:/io/wheelhouse'', ''-v'', ''/builds/pymor:/io/pymor'',
       ''pymor/wheelbuilder:py3.7'', ''/usr/local/bin/build-wheels.sh''],
      [''cp'', ''/builds/pymor/.ci/docker/deploy_checks/Dockerfile'', ''/shared/wheels''],
      [''docker'', ''build'', ''--build-arg'', ''tag=debian_buster'', ''/shared/wheels''],
      [''docker'', ''build'', ''--build-arg'', ''tag=centos_8'', ''/shared/wheels'']]"
  by (simp add: pipeline_def ci_world_def param_def docker_pull_def docker_run_def
      cp_dockerfile_def docker_build_def words_of_def is_ifs_def has_pattern_def)

text \<open>
  C4. Let \<^verbatim>\<open>SHARED_PATH\<close>, \<^verbatim>\<open>PYVER\<close> and \<^verbatim>\<open>TEST_OS\<close> be set. The
  commands the script is to execute (\<open>plan\<close>) are, in this order: \<^verbatim>\<open>sed\<close> when
  \<^verbatim>\<open>CI_COMMIT_TAG\<close> is empty, \<^verbatim>\<open>pwd -P\<close>, \<^verbatim>\<open>cd\<close>, \<^verbatim>\<open>mkdir -p\<close>,
  the pull of the image \<^verbatim>\<open>pymor/wheelbuilder:py${PYVER}\<close>, the run of the builder
  container with the wheelhouse mounted at \<^verbatim>\<open>/io/wheelhouse\<close> and the repository
  root at \<^verbatim>\<open>/io/pymor\<close>, the copy of the Dockerfile, and one
  \<^verbatim>\<open>docker build --build-arg tag=os\<close> for every word \<open>os\<close> of
  \<^verbatim>\<open>TEST_OS\<close>. The unquoted expansions are split into words; when the
  wheelhouse, the version, the repository root and the user id hold no blank and no
  pattern character, and \<^verbatim>\<open>TEST_OS\<close> no pattern character, the commands are the
  word lists written out in the second part of the statement. What is executed is an
  initial part of the plan; without a failure it is the whole plan; a command that
  fails is the last one executed and is what the script stops at; and when every
  command succeeds (and \<^verbatim>\<open>setup.cfg\<close> is there for \<^verbatim>\<open>sed\<close>) the script
  runs to its end.
\<close>

theorem ci_script_ordered:
  assumes "env w ''SHARED_PATH'' = Some wh"
    and "env w ''PYVER'' = Some v"
    and "env w ''TEST_OS'' = Some t"
    and "ci_script w \<lparr>setup_cfg = c0, trace = []\<rparr> = (s, e)"
    and "plan =
      (if param (env w ''CI_COMMIT_TAG'') = [] then [sed_cmd] else []) @
      [[''pwd'', ''-P''],
       [''cd'', pymor_root w],
       [''mkdir'', ''-p''] @ words_of w wh,
       [''docker'', ''pull''] @ words_of w (''pymor/wheelbuilder:py'' @ v),
       [''docker'', ''run'', ''--rm'', ''-t'', ''-e''] @ words_of w (''LOCAL_USER_ID='' @ uid w) @
         [''-v''] @ words_of w (wh @ '':/io/wheelhouse'') @
         [''-v''] @ words_of w (pymor_root w @ '':/io/pymor'') @
         words_of w (''pymor/wheelbuilder:py'' @ v) @ [''/usr/local/bin/build-wheels.sh''],
       [''cp''] @ words_of w (pymor_root w @ ''/.ci/docker/deploy_checks/Dockerfile'') @
         words_of w wh] @
      map (\<lambda>os. [''docker'', ''build'', ''--build-arg''] @ words_of w (''tag='' @ os) @
                  words_of w wh) (words_of w t)"
  shows "(wh \<noteq> [] \<and> \<not> has_pattern t \<and>
          (\<forall>x\<in>set [wh, v, pymor_root w, uid w].
             \<not> has_pattern x \<and> list_all (\<lambda>c. \<not> is_ifs c) x) \<longrightarrow>
          plan =
            (if param (env w ''CI_COMMIT_TAG'') = [] then [sed_cmd] else []) @
            [[''pwd'', ''-P''],
             [''cd'', pymor_root w],
             [''mkdir'', ''-p'', wh],
             [''docker'', ''pull'', ''pymor/wheelbuilder:py'' @ v],
             [''docker'', ''run'', ''--rm'', ''-t'', ''-e'', ''LOCAL_USER_ID='' @ uid w,
              ''-v'', wh @ '':/io/wheelhouse'', ''-v'', pymor_root w @ '':/io/pymor'',
              ''pymor/wheelbuilder:py'' @ v, ''/usr/local/bin/build-wheels.sh''],
             [''cp'', pymor_root w @ ''/.ci/docker/deploy_checks/Dockerfile'', wh]] @
            map (\<lambda>os. [''docker'', ''build'', ''--build-arg'', ''tag='' @ os, wh])
              (split_ifs [] t)) \<and>
         (\<exists>n\<le>length plan. trace s = take n plan) \<and>
         (e = None \<longrightarrow> trace s = plan \<and> (\<forall>i<length plan. ok w i (plan ! i))) \<and>
         (\<forall>i<length (trace s). \<not> ok w i (trace s ! i) \<longrightarrow>
            Suc i = length (trace s) \<and> e = Some (Failed (trace s ! i))) \<and>
         ((\<forall>i<length plan. ok w i (plan ! i)) \<and> (c0 \<noteq> None \<or> param (env w ''CI_COMMIT_TAG'') \<noteq> []) \<longrightarrow>
            e = None \<and> trace s = plan)"
proof -
  define s0 where "s0 = \<lparr>setup_cfg = c0, trace = []\<rparr>"
  have plan: "plan = pipeline w wh v t"
    unfolding assms(5) by (rule pipeline_words [symmetric])
  have run: "run_cmds w plan s0 = (s, e)"
    using ci_script_pipeline [OF assms(1-3), of s0] assms(4) plan by (simp add: s0_def)
  from run_cmds_trace [OF run] obtain n where n: "n \<le> length plan"
    "trace s = take n plan"
    "e = None \<longrightarrow> n = length plan \<and> (\<forall>i<n. ok w i (plan ! i))"
    "\<forall>x. e = Some x \<longrightarrow> 0 < n \<and> x = Failed (plan ! (n - 1))"
    "\<forall>i. Suc i < n \<longrightarrow> ok w i (plan ! i)"
    by (auto simp add: s0_def)
  have c1: "wh \<noteq> [] \<and> \<not> has_pattern t \<and>
          (\<forall>x\<in>set [wh, v, pymor_root w, uid w].
             \<not> has_pattern x \<and> list_all (\<lambda>c. \<not> is_ifs c) x) \<longrightarrow>
          plan =
            (if param (env w ''CI_COMMIT_TAG'') = [] then [sed_cmd] else []) @
            [[''pwd'', ''-P''],
             [''cd'', pymor_root w],
             [''mkdir'', ''-p'', wh],
             [''docker'', ''pull'', ''pymor/wheelbuilder:py'' @ v],
             [''docker'', ''run'', ''--rm'', ''-t'', ''-e'', ''LOCAL_USER_ID='' @ uid w,
              ''-v'', wh @ '':/io/wheelhouse'', ''-v'', pymor_root w @ '':/io/pymor'',
              ''pymor/wheelbuilder:py'' @ v, ''/usr/local/bin/build-wheels.sh''],
             [''cp'', pymor_root w @ ''/.ci/docker/deploy_checks/Dockerfile'', wh]] @
            map (\<lambda>os. [''docker'', ''build'', ''--build-arg'', ''tag='' @ os, wh])
              (split_ifs [] t)"
    unfolding plan using pipeline_plain [of wh v w t] by simp
  have c2: "\<exists>n\<le>length plan. trace s = take n plan" using n(1,2) by blast
  have c3: "e = None \<longrightarrow> trace s = plan \<and> (\<forall>i<length plan. ok w i (plan ! i))"
    using n(2,3) by auto
  have len: "length (trace s) = n" using n(1,2) by simp
  have c4: "\<forall>i<length (trace s). \<not> ok w i (trace s ! i) \<longrightarrow>
            Suc i = length (trace s) \<and> e = Some (Failed (trace s ! i))"
  proof (intro allI impI)
    fix i assume i: "i < length (trace s)" and bad: "\<not> ok w i (trace s ! i)"
    from i len have "i < n" by simp
    then have ti: "trace s ! i = plan ! i" using n(2) by simp
    from bad ti n(5) have "\<not> Suc i < n" by auto
    with \<open>i < n\<close> have last: "Suc i = n" by simp
    from bad ti n(3) \<open>i < n\<close> have "e \<noteq> None" by auto
    then obtain x where x: "e = Some x" by auto
    with n(4) have "x = Failed (plan ! (n - 1))" by simp
    with last ti x len show "Suc i = length (trace s) \<and> e = Some (Failed (trace s ! i))"
      by auto
  qed
  have c5: "(\<forall>i<length plan. ok w i (plan ! i)) \<and> (c0 \<noteq> None \<or> param (env w ''CI_COMMIT_TAG'') \<noteq> []) \<longrightarrow>
            e = None \<and> trace s = plan"
  proof
    assume h: "(\<forall>i<length plan. ok w i (plan ! i)) \<and> (c0 \<noteq> None \<or> param (env w ''CI_COMMIT_TAG'') \<noteq> [])"
    have nosed: "param (env w ''CI_COMMIT_TAG'') \<noteq> [] \<Longrightarrow> sed_cmd \<notin> set plan"
      unfolding plan pipeline_def
      by (auto simp add: sed_cmd_def docker_pull_def docker_run_def cp_dockerfile_def
          docker_build_def)
    have "snd (run_cmds w plan s0) = None"
      using h nosed by (intro run_cmds_all_ok) (auto simp add: s0_def)
    with run have "e = None" by simp
    with c3 show "e = None \<and> trace s = plan" by simp
  qed
  from c1 c2 c3 c4 c5 show ?thesis by blast
qed

theorem ci_script_ordered_witness:
  "snd (ci_script ci_world ci_start) = None \<and>
   drop 4 (trace (fst (ci_script ci_world ci_start))) =
     [[''docker'', ''pull'', ''pymor/wheelbuilder:py3.7''],
      [''docker'', ''run'', ''--rm'', ''-t'', ''-e'', ''LOCAL_USER_ID=1000'',
       ''-v'', ''/shared/wheels:/io/wheelhouse'', ''-v'', ''/builds/pymor:/io/pymor'',
       ''pymor/wheelbuilder:py3.7'', ''/usr/local/bin/build-wheels.sh''],
      [''cp'', ''/builds/pymor/.ci/docker/deploy_checks/Dockerfile'', ''/shared/wheels''],
      [''docker'', ''build'', ''--build-arg'', ''tag=debian_buster'', ''/shared/wheels''],
      [''docker'', ''build'', ''--build-arg'', ''tag=centos_8'', ''/shared/wheels'']]"
proof -
  have h1: "env ci_world ''SHARED_PATH'' = Some ''/shared/wheels''"
    and h2: "env ci_world ''PYVER'' = Some ''3.7''"
    and h3: "env ci_world ''TEST_OS'' = Some ''debian_buster  centos_8''"
    by (simp_all add: ci_world_def)
  have h4: "ci_script ci_world \<lparr>setup_cfg = Some ''[versioneer] style = pep440 x'', trace = []\<rparr> =
            (fst (ci_script ci_world ci_start), snd (ci_script ci_world ci_start))"
    by (simp add: ci_start_def)
  have h5: "pipeline ci_world ''/shared/wheels'' ''3.7'' ''debian_buster  centos_8'' =
      (if param (env ci_world ''CI_COMMIT_TAG'') = [] then [sed_cmd] else []) @
      [[''pwd'', ''-P''],
       [''cd'', pymor_root ci_world],
       [''mkdir'', ''-p''] @ words_of ci_world ''/shared/wheels'',
       [''docker'', ''pull''] @ words_of ci_world (''pymor/wheelbuilder:py'' @ ''3.7''),
       [''docker'', ''run'', ''--rm'', ''-t'', ''-e''] @
         words_of ci_world (''LOCAL_USER_ID='' @ uid ci_world) @
         [''-v''] @ words_of ci_world (''/shared/wheels'' @ '':/io/wheelhouse'') @
         [''-v''] @ words_of ci_world (pymor_root ci_world @ '':/io/pymor'') @
         words_of ci_world (''pymor/wheelbuilder:py'' @ ''3.7'') @
         [''/usr/local/bin/build-wheels.sh''],
       [''cp''] @
         words_of ci_world (pymor_root ci_world @ ''/.ci/docker/deploy_checks/Dockerfile'') @
         words_of ci_world ''/shared/wheels''] @
      map (\<lambda>os. [''docker'', ''build'', ''--build-arg''] @ words_of ci_world (''tag='' @ os) @
                  words_of ci_world ''/shared/wheels'')
        (words_of ci_world ''debian_buster  centos_8'')"
    by (rule pipeline_words)
  have allok: "\<forall>i<length (pipeline ci_world ''/shared/wheels'' ''3.7'' ''debian_buster  centos_8'').
      ok ci_world i (pipeline ci_world ''/shared/wheels'' ''3.7'' ''debian_buster  centos_8'' ! i)"
    by (simp add: ci_world_def)
  from ci_script_ordered [OF h1 h2 h3 h4 h5] allok
  have "snd (ci_script ci_world ci_start) = None \<and>
        trace (fst (ci_script ci_world ci_start)) =
          pipeline ci_world ''/shared/wheels'' ''3.7'' ''debian_buster  centos_8''"
    by blast
  then show ?thesis by (simp add: ci_world_pipeline)
qed

subsection \<open>The frame of the script: setup.cfg\<close>

lemma exec_untouched: "c \<noteq> sed_cmd \<Longrightarrow> untouched s (fst (exec w c s))"
  by (simp add: untouched_def exec_def effect_def)

lemma and_then_untouched:
  assumes "untouched s (fst r)" and "\<And>s1. untouched s1 (fst (f s1))"
  shows "untouched s (fst (and_then r f))"
proof (cases r)
  case (Pair s1 e)
  show ?thesis
  proof (cases e)
    case None
    with Pair assms(1) assms(2) [of s1] show ?thesis
      by (simp add: and_then_def untouched_def)
  next
    case (Some x)
    with Pair assms(1) show ?thesis by (simp add: and_then_def)
  qed
qed

lemma build_loop_untouched: "untouched s (fst (build_loop w wh oses s))"
proof (induction oses arbitrary: s)
  case Nil
  show ?case by (simp add: untouched_def)
next
  case (Cons os rest)
  have ne: "docker_build w wh os \<noteq> sed_cmd" by (simp add: docker_build_def sed_cmd_def)
  obtain s1 e1 where x: "exec w (docker_build w wh os) s = (s1, e1)"
    by (cases "exec w (docker_build w wh os) s")
  from exec_untouched [OF ne, of s w] x have u: "untouched s s1" by simp
  show ?case
  proof (cases e1)
    case None
    with x Cons.IH [of s1] u show ?thesis by (simp add: untouched_def)
  next
    case (Some a)
    with x u show ?thesis by simp
  qed
qed

lemma case_untouched:
  assumes "v = None \<Longrightarrow> untouched s (fst a)"
    and "\<And>x. v = Some x \<Longrightarrow> untouched s (fst (f x))"
  shows "untouched s (fst (case v of None \<Rightarrow> a | Some x \<Rightarrow> f x))"
  using assms by (cases v) simp_all

lemma build_wheels_untouched: "untouched s (fst (build_wheels w s))"
  unfolding build_wheels_def Let_def
  by (intro case_untouched and_then_untouched exec_untouched build_loop_untouched)
    (simp_all add: untouched_def docker_pull_def docker_run_def cp_dockerfile_def sed_cmd_def)

lemma param_empty:
  "(param v = []) = (v = None \<or> v = Some [])"
  by (cases v) (simp_all add: param_def)

lemma ci_script_sed:
  assumes "ci_script w \<lparr>setup_cfg = c0, trace = []\<rparr> = (s, e)"
  shows "(sed_cmd \<in> set (trace s)) = (param (env w ''CI_COMMIT_TAG'') = [])"
    and "param (env w ''CI_COMMIT_TAG'') \<noteq> [] \<Longrightarrow> setup_cfg s = c0"
    and "param (env w ''CI_COMMIT_TAG'') = [] \<Longrightarrow> c0 = Some cfg \<Longrightarrow> ok w 0 sed_cmd \<Longrightarrow>
           setup_cfg s = Some (subst_all (unescape sed_regexp) (unescape sed_replacement) cfg)"
    and "\<not> ok w 0 sed_cmd \<Longrightarrow> setup_cfg s = c0"
proof -
  define s0 where "s0 = \<lparr>setup_cfg = c0, trace = []\<rparr>"
  obtain s1 e1 where x: "set_version_style w s0 = (s1, e1)"
    by (cases "set_version_style w s0")
  have u: "untouched s1 s \<or> s = s1"
    using assms x build_wheels_untouched [of s1 w]
    by (cases e1) (auto simp add: ci_script_def and_then_def s0_def)
  then have cfg: "setup_cfg s = setup_cfg s1"
    and tr: "(sed_cmd \<in> set (trace s)) = (sed_cmd \<in> set (trace s1))"
  proof -
    from u show "setup_cfg s = setup_cfg s1" by (auto simp add: untouched_def)
    from u have "filter (\<lambda>c. c = sed_cmd) (trace s) = filter (\<lambda>c. c = sed_cmd) (trace s1)"
      by (auto simp add: untouched_def)
    then have "set (filter (\<lambda>c. c = sed_cmd) (trace s)) = set (filter (\<lambda>c. c = sed_cmd) (trace s1))"
      by simp
    then show "(sed_cmd \<in> set (trace s)) = (sed_cmd \<in> set (trace s1))" by auto
  qed
  show "(sed_cmd \<in> set (trace s)) = (param (env w ''CI_COMMIT_TAG'') = [])"
    unfolding tr using x
    by (auto simp add: set_version_style_def s0_def exec_def effect_def split: if_splits)
  show "param (env w ''CI_COMMIT_TAG'') \<noteq> [] \<Longrightarrow> setup_cfg s = c0"
    unfolding cfg using x by (auto simp add: set_version_style_def s0_def)
  show "param (env w ''CI_COMMIT_TAG'') = [] \<Longrightarrow> c0 = Some cfg \<Longrightarrow> ok w 0 sed_cmd \<Longrightarrow>
           setup_cfg s = Some (subst_all (unescape sed_regexp) (unescape sed_replacement) cfg)"
    unfolding cfg using x
    by (auto simp add: set_version_style_def s0_def exec_def effect_def succeeds_def)
  show "\<not> ok w 0 sed_cmd \<Longrightarrow> setup_cfg s = c0"
    unfolding cfg using x
    by (auto simp add: set_version_style_def s0_def exec_def effect_def succeeds_def
        split: if_splits)
qed

text \<open>
  C9. \<^verbatim>\<open>sed\<close> is executed on \<^verbatim>\<open>setup.cfg\<close> if and only if
  \<^verbatim>\<open>CI_COMMIT_TAG\<close> is unset or empty. With a non-empty tag, and also when
  \<^verbatim>\<open>sed\<close> fails, the file is left as it was. Otherwise the old text is
  segments joined by \<^verbatim>\<open>style = pep440\<close>, none of which contains that string
  and one more than there are occurrences of it in the text; the new text is the same
  segments joined by \<^verbatim>\<open>style = ci_wheel_builder\<close>, and
  \<^verbatim>\<open>style = pep440\<close> occurs nowhere in it.
\<close>

theorem ci_script_setup_cfg:
  assumes "ci_script w \<lparr>setup_cfg = c0, trace = []\<rparr> = (s, e)"
  shows "(sed_cmd \<in> set (trace s)) =
           (env w ''CI_COMMIT_TAG'' = None \<or> env w ''CI_COMMIT_TAG'' = Some []) \<and>
         ((\<exists>tag. env w ''CI_COMMIT_TAG'' = Some tag \<and> tag \<noteq> []) \<longrightarrow> setup_cfg s = c0) \<and>
         (\<not> ok w 0 sed_cmd \<longrightarrow> setup_cfg s = c0) \<and>
         (\<forall>cfg. (env w ''CI_COMMIT_TAG'' = None \<or> env w ''CI_COMMIT_TAG'' = Some []) \<and>
                c0 = Some cfg \<and> ok w 0 sed_cmd \<longrightarrow>
            (\<exists>segs. length segs = Suc (occurrences ''style = pep440'' cfg) \<and>
                    cfg = join ''style = pep440'' segs \<and>
                    setup_cfg s = Some (join ''style = ci_wheel_builder'' segs) \<and>
                    (\<forall>g\<in>set segs. \<not> sublist ''style = pep440'' g) \<and>
                    \<not> sublist ''style = pep440'' (join ''style = ci_wheel_builder'' segs)))"
proof -
  note sed = ci_script_sed [OF assms]
  have c1: "(sed_cmd \<in> set (trace s)) =
           (env w ''CI_COMMIT_TAG'' = None \<or> env w ''CI_COMMIT_TAG'' = Some [])"
    using sed(1) by (simp add: param_empty)
  have c2: "(\<exists>tag. env w ''CI_COMMIT_TAG'' = Some tag \<and> tag \<noteq> []) \<longrightarrow> setup_cfg s = c0"
    using sed(2) by (auto simp add: param_def)
  have c3: "\<not> ok w 0 sed_cmd \<longrightarrow> setup_cfg s = c0"
    using sed(4) by blast
  have c4: "\<forall>cfg. (env w ''CI_COMMIT_TAG'' = None \<or> env w ''CI_COMMIT_TAG'' = Some []) \<and>
                c0 = Some cfg \<and> ok w 0 sed_cmd \<longrightarrow>
            (\<exists>segs. length segs = Suc (occurrences ''style = pep440'' cfg) \<and>
                    cfg = join ''style = pep440'' segs \<and>
                    setup_cfg s = Some (join ''style = ci_wheel_builder'' segs) \<and>
                    (\<forall>g\<in>set segs. \<not> sublist ''style = pep440'' g) \<and>
                    \<not> sublist ''style = pep440'' (join ''style = ci_wheel_builder'' segs))"
  proof (intro allI impI)
    fix cfg
    assume h: "(env w ''CI_COMMIT_TAG'' = None \<or> env w ''CI_COMMIT_TAG'' = Some []) \<and>
                c0 = Some cfg \<and> ok w 0 sed_cmd"
    then have "param (env w ''CI_COMMIT_TAG'') = []" by (simp add: param_empty)
    from sed(3) [OF this] h
    have new: "setup_cfg s = Some (subst_all ''style = pep440'' ''style = ci_wheel_builder'' cfg)"
      by (simp add: sed_pattern sed_replacement_text)
    have "''style = pep440'' \<noteq> []" and "hd ''style = pep440'' \<notin> set (tl ''style = pep440'')"
      by simp_all
    from subst_all_segments [OF this, of cfg "''style = ci_wheel_builder''"]
    obtain segs where segs: "length segs = Suc (occurrences ''style = pep440'' cfg)"
      "cfg = join ''style = pep440'' segs"
      "subst_all ''style = pep440'' ''style = ci_wheel_builder'' cfg =
         join ''style = ci_wheel_builder'' segs"
      "\<forall>g\<in>set segs. \<not> sublist ''style = pep440'' g"
      by blast
    from style_not_left [OF segs(4)] segs new
    show "\<exists>segs. length segs = Suc (occurrences ''style = pep440'' cfg) \<and>
                    cfg = join ''style = pep440'' segs \<and>
                    setup_cfg s = Some (join ''style = ci_wheel_builder'' segs) \<and>
                    (\<forall>g\<in>set segs. \<not> sublist ''style = pep440'' g) \<and>
                    \<not> sublist ''style = pep440'' (join ''style = ci_wheel_builder'' segs)"
      by auto
  qed
  from c1 c2 c3 c4 show ?thesis by blast
qed

theorem ci_script_setup_cfg_witness:
  "sed_cmd \<in> set (trace (fst (ci_script ci_world ci_start))) \<and>
   setup_cfg (fst (ci_script ci_world ci_start)) = Some ''[versioneer] style = ci_wheel_builder x''"
proof -
  have h: "ci_script ci_world \<lparr>setup_cfg = Some ''[versioneer] style = pep440 x'', trace = []\<rparr> =
            (fst (ci_script ci_world ci_start), snd (ci_script ci_world ci_start))"
    by (simp add: ci_start_def)
  have tag: "env ci_world ''CI_COMMIT_TAG'' = None" by (simp add: ci_world_def)
  have ok0: "ok ci_world 0 sed_cmd" by (simp add: ci_world_def)
  from ci_script_setup_cfg [OF h] tag ok0
  obtain segs where segs: "sed_cmd \<in> set (trace (fst (ci_script ci_world ci_start)))"
    "''[versioneer] style = pep440 x'' = join ''style = pep440'' segs"
    "setup_cfg (fst (ci_script ci_world ci_start)) = Some (join ''style = ci_wheel_builder'' segs)"
    by auto
  have "setup_cfg (fst (ci_script ci_world ci_start)) =
          Some ''[versioneer] style = ci_wheel_builder x''"
    by (simp add: ci_script_def set_version_style_def ci_world_def param_def and_then_def
        exec_def succeeds_def effect_def ci_start_def sed_pattern sed_replacement_text
        build_wheels_untouched [unfolded untouched_def])
  with segs(1) show ?thesis by simp
qed

section \<open>Properties of the notebook\<close>

lemmas cell_defs =
  cell_imports_def cell_discretize_def cell_visualize_def cell_to_lti_def cell_dimensions_def
  cell_poles_def cell_bode_full_def cell_hsv_def cell_fom_norms_def
  cell_bt_def cell_bt_errors_def cell_bt_bode_def cell_bt_error_bode_def
  cell_lqgbt_def cell_lqgbt_errors_def cell_lqgbt_bode_def cell_lqgbt_error_bode_def
  cell_brbt_def cell_brbt_errors_def cell_brbt_bode_def cell_brbt_error_bode_def
  cell_irka_def cell_irka_dist_def cell_irka_errors_def cell_irka_bode_def
  cell_irka_error_bode_def cell_tsia_def
  cell_one_sided_irka_def cell_one_sided_irka_dist_def cell_one_sided_irka_poles_def
  cell_one_sided_irka_errors_def cell_one_sided_irka_bode_def
  cell_one_sided_irka_error_bode_def
  cell_sympy_def cell_tf_limit_def cell_dtf_def cell_dtf_limit_def cell_tf_def
  cell_tf_lti_bode_def cell_tf_h2_def cell_tf_lti_h2_def cell_tf_irka_def
  cell_tf_irka_error_def cell_irka_tf_error_def

subsection \<open>The steps of the computation\<close>







subsection \<open>The printed figures\<close>

lemma printed_append: "printed (xs @ ys) = printed xs @ printed ys"
  by (simp add: printed_def)

lemma printed_list:
  "printed (heat_notebook s) =
     [Attr lti ''order'', Attr lti ''input_dim'', Attr lti ''output_dim'',
      meth lti ''h2_norm'' []] @ (if s then [meth lti ''hinf_norm'' []] else []) @
     [meth lti ''hankel_norm'' [],
      relative_figure lti rom_bt ''h2_norm''] @
     (if s then [relative_figure lti rom_bt ''hinf_norm''] else []) @
     [relative_figure lti rom_bt ''hankel_norm'',
      relative_figure lti rom_lqgbt ''h2_norm''] @
     (if s then [relative_figure lti rom_lqgbt ''hinf_norm''] else []) @
     [relative_figure lti rom_lqgbt ''hankel_norm'',
      relative_figure lti rom_brbt ''h2_norm''] @
     (if s then [relative_figure lti rom_brbt ''hinf_norm''] else []) @
     [relative_figure lti rom_brbt ''hankel_norm'',
      relative_figure lti rom_irka ''h2_norm''] @
     (if s then [relative_figure lti rom_irka ''hinf_norm''] else []) @
     [relative_figure lti rom_irka ''hankel_norm'',
      relative_figure lti rom_one_sided_irka ''h2_norm''] @
     (if s then [relative_figure lti rom_one_sided_irka ''hinf_norm''] else []) @
     [relative_figure lti rom_one_sided_irka ''hankel_norm'',
      tf_h2_norm, meth lti ''h2_norm'' [],
      Bin h2_dist ''/'' tf_h2_norm,
      Bin tf_irka_h2_error ''/'' tf_h2_norm,
      Bin irka_h2_error ''/'' tf_h2_norm]"
  unfolding heat_notebook_def printed_append
  by (simp add: cell_defs printed_def relative_figure_def
      err_bt_def err_lqgbt_def err_brbt_def err_irka_def err_one_sided_irka_def)

lemma lti_free: "\<not> mentions (Call (Attr (Bin a ''-'' b) n) [] []) lti"
  by (simp add: lti_def fom_def discretized_def p_nb_def)

lemma sy_tf_free: "\<not> mentions (Call (Attr (Bin a ''-'' b) n) [] []) sy_tf"
  by (simp add: sy_tf_def y_nb_def sol_def sqrt_s_def sy_s_def sy_u_def sy_c1_def sy_c2_def
      symbols_def sy_def)

lemma tf_free: "\<not> mentions (Call (Attr (Bin a ''-'' b) n) [] []) tf"
  by (simp add: tf_def H_nb_def dH_nb_def sy_dtf_def sy_s_def symbols_def sy_def np_def
      sy_tf_free lti_free)

lemma rom_irka_free: "\<not> mentions (Call (Attr (Bin a ''-'' b) n) [] []) rom_irka"
  by (simp add: rom_irka_def irka_reductor_def sigma_def r_nb_def np_def lti_free)

lemma rom_tf_irka_free: "\<not> mentions (Call (Attr (Bin a ''-'' b) n) [] []) rom_tf_irka"
  by (simp add: rom_tf_irka_def tf_irka_reductor_def r_nb_def tf_free)

lemma integrand_free:
  "\<not> mentions (Call (Attr (Bin a ''-'' b) n) [] []) sys \<Longrightarrow>
   \<not> mentions (Call (Attr (Bin a ''-'' b) n) [] []) (integrand sys)"
  by (simp add: integrand_def spla_def)

lemma base_free:
  "\<not> mentions (Call (Attr (Bin a ''-'' b) n) [] []) tf_h2_norm"
  "\<not> mentions (Call (Attr (Bin a ''-'' b) n) [] []) h2_dist"
  "\<not> mentions (Call (Attr (Bin a ''-'' b) n) [] []) tf_irka_h2_error"
  "\<not> mentions (Call (Attr (Bin a ''-'' b) n) [] []) irka_h2_error"
  by (simp_all add: tf_h2_norm_def tf_h2_int_def tf_h2_quad_def h2_dist_def dist_h2_int_def
      dist_h2_quad_def tf_lti_diff_def tf_irka_h2_error_def error_h2_def error_h2_quad_def
      err_tf_irka_def irka_h2_error_def error_irka_h2_def error_irka_h2_quad_def
      err_irka_tf_def np_def spint_def integrand_free tf_free lti_free rom_irka_free
      rom_tf_irka_free)

lemma reduced_free:
  "\<not> mentions (Call (Attr (Bin a ''-'' b) n) [] []) rom_bt"
  "\<not> mentions (Call (Attr (Bin a ''-'' b) n) [] []) rom_lqgbt"
  "\<not> mentions (Call (Attr (Bin a ''-'' b) n) [] []) rom_brbt"
  "\<not> mentions (Call (Attr (Bin a ''-'' b) n) [] []) rom_one_sided_irka"
  by (simp_all add: rom_bt_def bt_reductor_def rom_lqgbt_def lqgbt_reductor_def rom_brbt_def
      brbt_reductor_def rom_one_sided_irka_def one_sided_irka_reductor_def sigma_def r_nb_def
      np_def lti_free)

lemma system_shapes:
  "lti \<noteq> Bin x opr y" "tf \<noteq> Bin x opr y" "tf_h2_norm \<noteq> Bin x opr y"
  "h2_dist \<noteq> Call (Attr v n) [] []" "tf_irka_h2_error \<noteq> Call (Attr v n) [] []"
  "irka_h2_error \<noteq> Call (Attr v n) [] []"
  by (simp_all add: lti_def tf_def tf_h2_norm_def h2_dist_def tf_irka_h2_error_def
      irka_h2_error_def)

lemma figure_mentions:
  "list_all (\<lambda>v. mentions (meth (Bin a ''-'' b) n []) v = (v = relative_figure a b n))
     (printed (heat_notebook s))"
  by (auto simp add: printed_list relative_figure_def lti_free rom_irka_free reduced_free
      base_free system_shapes system_shapes [symmetric])

lemma list_ex_eq: "list_all (\<lambda>v. P v = Q v) xs \<Longrightarrow> list_ex P xs = list_ex Q xs"
  by (induction xs) auto

lemma norm_reported_figure:
  "norm_reported (heat_notebook s) (Bin a ''-'' b) n =
     list_ex ((=) (relative_figure a b n)) (printed (heat_notebook s))"
proof -
  have "list_ex (mentions (meth (Bin a ''-'' b) n [])) (printed (heat_notebook s)) =
        list_ex (\<lambda>v. v = relative_figure a b n) (printed (heat_notebook s))"
    using figure_mentions [of a b n s] by (rule list_ex_eq)
  also have "\<dots> = list_ex ((=) (relative_figure a b n)) (printed (heat_notebook s))"
    by (rule arg_cong [where f = "\<lambda>P. list_ex P (printed (heat_notebook s))"]) auto
  finally show ?thesis by (simp add: norm_reported_def)
qed

lemmas system_defs = lti_def tf_def rom_bt_def bt_reductor_def rom_lqgbt_def lqgbt_reductor_def
  rom_brbt_def brbt_reductor_def rom_irka_def irka_reductor_def rom_tsia_def
  tsia_reductor_def rom_one_sided_irka_def one_sided_irka_reductor_def rom_tf_irka_def
  tf_irka_reductor_def

lemmas figure_defs = tf_h2_norm_def h2_dist_def tf_irka_h2_error_def irka_h2_error_def

text \<open>
  C5. A printed figure involves a norm (any method \<open>n\<close> without arguments) of a
  difference \<open>a - b\<close> of systems exactly when it is the quotient of that norm by the
  same norm of \<open>a\<close>. For the reduced models of BT, LQGBT, BRBT, IRKA and one-sided
  IRKA the quotients \<^verbatim>\<open>(lti - rom).n() / lti.n()\<close> are printed for the H2 norm
  and the Hankel norm, and for the H-infinity norm exactly when
  \<^verbatim>\<open>config.HAVE_SLYCOT\<close> holds. The three H2 distances measured against the
  transfer function are printed as quotients too, by the H2 norm of the transfer
  function.
\<close>

theorem heat_relative_errors:
  "list_all (\<lambda>v. mentions (meth (Bin a ''-'' b) n []) v = (v = relative_figure a b n))
     (printed (heat_notebook s)) \<and>
   list_all (\<lambda>rom.
       list_ex ((=) (relative_figure lti rom ''h2_norm'')) (printed (heat_notebook s)) \<and>
       list_ex ((=) (relative_figure lti rom ''hinf_norm'')) (printed (heat_notebook s)) = s \<and>
       list_ex ((=) (relative_figure lti rom ''hankel_norm'')) (printed (heat_notebook s)))
     [rom_bt, rom_lqgbt, rom_brbt, rom_irka, rom_one_sided_irka] \<and>
   list_all (\<lambda>v. list_ex ((=) v) (printed (heat_notebook s)))
     [Bin h2_dist ''/'' tf_h2_norm, Bin tf_irka_h2_error ''/'' tf_h2_norm,
      Bin irka_h2_error ''/'' tf_h2_norm]"
proof -
  have "list_all (\<lambda>rom.
       list_ex ((=) (relative_figure lti rom ''h2_norm'')) (printed (heat_notebook s)) \<and>
       list_ex ((=) (relative_figure lti rom ''hinf_norm'')) (printed (heat_notebook s)) = s \<and>
       list_ex ((=) (relative_figure lti rom ''hankel_norm'')) (printed (heat_notebook s)))
     [rom_bt, rom_lqgbt, rom_brbt, rom_irka, rom_one_sided_irka]"
    by (simp add: printed_list relative_figure_def system_defs figure_defs)
  moreover have "list_all (\<lambda>v. list_ex ((=) v) (printed (heat_notebook s)))
     [Bin h2_dist ''/'' tf_h2_norm, Bin tf_irka_h2_error ''/'' tf_h2_norm,
      Bin irka_h2_error ''/'' tf_h2_norm]"
    by (simp add: printed_list)
  ultimately show ?thesis using figure_mentions [of a b n s] by simp
qed

subsection \<open>Norms and Bode plots per reduced model\<close>

lemma mag_plotted_append:
  "mag_plotted (xs @ ys) sys = (mag_plotted xs sys \<or> mag_plotted ys sys)"
  by (simp add: mag_plotted_def)

lemma displayed_not_mag_plot:
  "is_mag_plot sys (Do sy_tf) = False" "is_mag_plot sys (Do sy_dtf) = False"
  by (simp_all add: sy_tf_def sy_dtf_def)

lemma heat_mag_plots:
  "mag_plotted (heat_notebook s) sys =
     list_ex ((=) sys)
       [lti, rom_bt, err_bt, rom_lqgbt, err_lqgbt, rom_brbt, err_brbt, rom_irka, err_irka,
        rom_one_sided_irka, err_one_sided_irka, tf_lti_diff]"
  unfolding heat_notebook_def mag_plotted_append
  by (simp add: mag_plotted_def cell_defs displayed_not_mag_plot) blast

lemmas err_defs = err_bt_def err_lqgbt_def err_brbt_def err_irka_def err_one_sided_irka_def
  tf_lti_diff_def

text \<open>
  Where the results of \<^verbatim>\<open>TSIAReductor(...).reduce(...)\<close> and of
  \<^verbatim>\<open>TF_IRKAReductor(...).reduce(...)\<close> occur: in none of the systems and figures
  below, except that the quadrature error of TF-IRKA is computed from the TF-IRKA model.
\<close>

lemma lti_reduce_free:
  "\<not> mentions (Call (Attr (Call (Name ''TSIAReductor'') ra rk) ''reduce'') ca ck) lti"
  "\<not> mentions (Call (Attr (Call (Name ''TF_IRKAReductor'') ra rk) ''reduce'') ca ck) lti"
  by (simp_all add: lti_def fom_def discretized_def p_nb_def)

lemma sy_tf_reduce_free:
  "\<not> mentions (Call (Attr (Call (Name ''TSIAReductor'') ra rk) ''reduce'') ca ck) sy_tf"
  "\<not> mentions (Call (Attr (Call (Name ''TF_IRKAReductor'') ra rk) ''reduce'') ca ck) sy_tf"
  by (simp_all add: sy_tf_def y_nb_def sol_def sqrt_s_def sy_s_def sy_u_def sy_c1_def sy_c2_def
      symbols_def sy_def)

lemma tf_reduce_free:
  "\<not> mentions (Call (Attr (Call (Name ''TSIAReductor'') ra rk) ''reduce'') ca ck) tf"
  "\<not> mentions (Call (Attr (Call (Name ''TF_IRKAReductor'') ra rk) ''reduce'') ca ck) tf"
  by (simp_all add: tf_def H_nb_def dH_nb_def sy_dtf_def sy_s_def symbols_def sy_def np_def
      sy_tf_reduce_free lti_reduce_free)

lemma roms_reduce_free:
  "\<not> mentions (Call (Attr (Call (Name ''TSIAReductor'') ra rk) ''reduce'') ca ck) rom_bt"
  "\<not> mentions (Call (Attr (Call (Name ''TF_IRKAReductor'') ra rk) ''reduce'') ca ck) rom_bt"
  "\<not> mentions (Call (Attr (Call (Name ''TSIAReductor'') ra rk) ''reduce'') ca ck) rom_lqgbt"
  "\<not> mentions (Call (Attr (Call (Name ''TF_IRKAReductor'') ra rk) ''reduce'') ca ck) rom_lqgbt"
  "\<not> mentions (Call (Attr (Call (Name ''TSIAReductor'') ra rk) ''reduce'') ca ck) rom_brbt"
  "\<not> mentions (Call (Attr (Call (Name ''TF_IRKAReductor'') ra rk) ''reduce'') ca ck) rom_brbt"
  "\<not> mentions (Call (Attr (Call (Name ''TSIAReductor'') ra rk) ''reduce'') ca ck) rom_irka"
  "\<not> mentions (Call (Attr (Call (Name ''TF_IRKAReductor'') ra rk) ''reduce'') ca ck) rom_irka"
  "\<not> mentions (Call (Attr (Call (Name ''TSIAReductor'') ra rk) ''reduce'') ca ck) rom_one_sided_irka"
  "\<not> mentions (Call (Attr (Call (Name ''TF_IRKAReductor'') ra rk) ''reduce'') ca ck) rom_one_sided_irka"
  by (simp_all add: rom_bt_def bt_reductor_def rom_lqgbt_def lqgbt_reductor_def rom_brbt_def
      brbt_reductor_def rom_irka_def irka_reductor_def rom_one_sided_irka_def
      one_sided_irka_reductor_def sigma_def r_nb_def np_def lti_reduce_free)

lemma rom_tf_irka_tsia_free:
  "\<not> mentions (Call (Attr (Call (Name ''TSIAReductor'') ra rk) ''reduce'') ca ck) rom_tf_irka"
  by (simp add: rom_tf_irka_def tf_irka_reductor_def r_nb_def tf_reduce_free)

lemma integrand_reduce_free:
  "\<not> mentions (Call (Attr (Call (Name nm) ra rk) ''reduce'') ca ck) sys \<Longrightarrow>
   \<not> mentions (Call (Attr (Call (Name nm) ra rk) ''reduce'') ca ck) (integrand sys)"
  by (simp add: integrand_def spla_def)

lemma figures_reduce_free:
  "\<not> mentions (Call (Attr (Call (Name ''TSIAReductor'') ra rk) ''reduce'') ca ck) tf_h2_norm"
  "\<not> mentions (Call (Attr (Call (Name ''TF_IRKAReductor'') ra rk) ''reduce'') ca ck) tf_h2_norm"
  "\<not> mentions (Call (Attr (Call (Name ''TSIAReductor'') ra rk) ''reduce'') ca ck) h2_dist"
  "\<not> mentions (Call (Attr (Call (Name ''TF_IRKAReductor'') ra rk) ''reduce'') ca ck) h2_dist"
  "\<not> mentions (Call (Attr (Call (Name ''TSIAReductor'') ra rk) ''reduce'') ca ck) irka_h2_error"
  "\<not> mentions (Call (Attr (Call (Name ''TF_IRKAReductor'') ra rk) ''reduce'') ca ck) irka_h2_error"
  "\<not> mentions (Call (Attr (Call (Name ''TSIAReductor'') ra rk) ''reduce'') ca ck) tf_irka_h2_error"
  by (simp_all add: tf_h2_norm_def tf_h2_int_def tf_h2_quad_def h2_dist_def dist_h2_int_def
      dist_h2_quad_def tf_lti_diff_def tf_irka_h2_error_def error_h2_def error_h2_quad_def
      err_tf_irka_def irka_h2_error_def error_irka_h2_def error_irka_h2_quad_def
      err_irka_tf_def np_def spint_def integrand_reduce_free tf_reduce_free lti_reduce_free
      roms_reduce_free rom_tf_irka_tsia_free)

lemma mentions_self: "mentions t t"
  by (cases t) simp_all

lemma tf_irka_error_mentions:
  "mentions rom_tf_irka tf_irka_h2_error"
  by (simp add: tf_irka_h2_error_def error_h2_def error_h2_quad_def err_tf_irka_def
      integrand_def mentions_self)

lemma printed_tsia_free:
  "list_all (\<lambda>v. \<not> mentions rom_tsia v) (printed (heat_notebook s))"
  unfolding rom_tsia_def tsia_reductor_def
  by (simp add: printed_list relative_figure_def lti_reduce_free roms_reduce_free
      figures_reduce_free)

lemma printed_tf_irka:
  "filter (mentions rom_tf_irka) (printed (heat_notebook s)) =
     [Bin tf_irka_h2_error ''/'' tf_h2_norm]"
proof -
  have in_error: "mentions (Call (Attr (Call (Name ''TF_IRKAReductor'') [tf] []) ''reduce'')
                    [r_nb] []) tf_irka_h2_error"
    using tf_irka_error_mentions by (simp add: rom_tf_irka_def tf_irka_reductor_def)
  show ?thesis
    unfolding rom_tf_irka_def tf_irka_reductor_def
    by (simp add: printed_list relative_figure_def lti_reduce_free roms_reduce_free
        figures_reduce_free in_error)
qed

lemma plotted_reduce_free:
  "list_all (\<lambda>sys. \<not> mentions rom_tsia sys \<and> \<not> mentions rom_tf_irka sys)
     [lti, rom_bt, err_bt, rom_lqgbt, err_lqgbt, rom_brbt, err_brbt, rom_irka, err_irka,
      rom_one_sided_irka, err_one_sided_irka, tf_lti_diff]"
  unfolding rom_tsia_def tsia_reductor_def rom_tf_irka_def tf_irka_reductor_def
  by (simp add: err_defs lti_reduce_free roms_reduce_free tf_reduce_free)

text \<open>
  C2, as stated: for each of the seven reduced models, the error system is measured in
  all three norms and compared in Bode plots. No norm of \<^verbatim>\<open>lti - rom_tsia\<close> is
  printed and \<^verbatim>\<open>rom_tsia\<close> is never plotted; no Hankel norm of
  \<^verbatim>\<open>tf - rom_tf_irka\<close> is printed; and without \<^verbatim>\<open>HAVE_SLYCOT\<close> no
  H-infinity norm of \<^verbatim>\<open>lti - rom_bt\<close> is printed.
\<close>

theorem heat_error_measures_counterexample:
  "\<not> error_quantified (heat_notebook True) lti rom_tsia \<and>
   \<not> norm_reported (heat_notebook True) (Bin lti ''-'' rom_tsia) ''h2_norm'' \<and>
   \<not> mag_plotted (heat_notebook True) rom_tsia \<and>
   \<not> error_quantified (heat_notebook True) tf rom_tf_irka \<and>
   \<not> norm_reported (heat_notebook True) (Bin tf ''-'' rom_tf_irka) ''hankel_norm'' \<and>
   \<not> error_quantified (heat_notebook False) lti rom_bt \<and>
   \<not> norm_reported (heat_notebook False) (Bin lti ''-'' rom_bt) ''hinf_norm''"
proof -
  have a: "\<not> norm_reported (heat_notebook True) (Bin lti ''-'' rom_tsia) ''h2_norm''"
    by (simp add: norm_reported_figure printed_list relative_figure_def system_defs
        figure_defs)
  have b: "\<not> mag_plotted (heat_notebook True) rom_tsia"
    by (simp add: heat_mag_plots err_defs system_defs)
  have c: "\<not> norm_reported (heat_notebook True) (Bin tf ''-'' rom_tf_irka) ''hankel_norm''"
    by (simp add: norm_reported_figure printed_list relative_figure_def system_defs
        figure_defs)
  have d: "\<not> norm_reported (heat_notebook False) (Bin lti ''-'' rom_bt) ''hinf_norm''"
    by (simp add: norm_reported_figure printed_list relative_figure_def system_defs
        figure_defs)
  from a b c d show ?thesis by (simp add: error_quantified_def)
qed

text \<open>
  C2, amended. What the notebook itself reports, by \<^verbatim>\<open>print\<close> and by
  \<^verbatim>\<open>mag_plot\<close>; what a library call computes internally (every IRKA, one-sided
  IRKA and TSIA call passes \<^verbatim>\<open>compute_errors=True\<close>) is not part of it.

  For the reduced models of BT, LQGBT, BRBT, IRKA and one-sided IRKA, a figure of the H2
  norm and one of the Hankel norm of the error system \<^verbatim>\<open>lti - rom\<close> are printed,
  one of the H-infinity norm exactly when \<^verbatim>\<open>config.HAVE_SLYCOT\<close> holds, and the
  magnitude plots of the full model, of the reduced model and of the error system are
  drawn.

  For TF-IRKA exactly one printed figure is computed from the reduced model: the H2
  error obtained by quadrature of \<^verbatim>\<open>tf - rom_tf_irka\<close>, divided by the H2 norm of
  \<^verbatim>\<open>tf\<close>. No printed figure is computed from a norm method of that error system.

  For TSIA no printed figure is computed from the reduced model \<^verbatim>\<open>rom_tsia\<close>,
  which is the result of \<^verbatim>\<open>reduce(rom0, compute_errors=True)\<close>.

  The systems whose magnitude plot is drawn are the twelve listed; none of them is
  computed from the TSIA or the TF-IRKA model, so neither these models nor their error
  systems are plotted.
\<close>

theorem heat_error_measures:
  "list_all (\<lambda>rom.
       norm_reported (heat_notebook s) (Bin lti ''-'' rom) ''h2_norm'' \<and>
       norm_reported (heat_notebook s) (Bin lti ''-'' rom) ''hinf_norm'' = s \<and>
       norm_reported (heat_notebook s) (Bin lti ''-'' rom) ''hankel_norm'' \<and>
       mag_plotted (heat_notebook s) lti \<and>
       mag_plotted (heat_notebook s) rom \<and>
       mag_plotted (heat_notebook s) (Bin lti ''-'' rom))
     [rom_bt, rom_lqgbt, rom_brbt, rom_irka, rom_one_sided_irka] \<and>
   filter (mentions rom_tf_irka) (printed (heat_notebook s)) =
     [Bin tf_irka_h2_error ''/'' tf_h2_norm] \<and>
   tf_irka_h2_error =
     meth np ''sqrt''
       [Bin (Bin (Item (Call (Attr spint ''quad'')
                          [integrand (Bin tf ''-'' rom_tf_irka), Neg (Attr np ''inf''),
                           Attr np ''inf'']
                          [(''epsabs'', Flt ''1e-16'')]) (Num 0)) ''/'' (Num 2))
            ''/'' (Attr np ''pi'')] \<and>
   \<not> norm_reported (heat_notebook s) (Bin tf ''-'' rom_tf_irka) n \<and>
   rom_tsia = Call (Attr tsia_reductor ''reduce'') [rom0] [(''compute_errors'', Name ''True'')] \<and>
   filter (mentions rom_tsia) (printed (heat_notebook s)) = [] \<and>
   \<not> norm_reported (heat_notebook s) (Bin lti ''-'' rom_tsia) n \<and>
   mag_plotted (heat_notebook s) sys =
     list_ex ((=) sys)
       [lti, rom_bt, Bin lti ''-'' rom_bt, rom_lqgbt, Bin lti ''-'' rom_lqgbt,
        rom_brbt, Bin lti ''-'' rom_brbt, rom_irka, Bin lti ''-'' rom_irka,
        rom_one_sided_irka, Bin lti ''-'' rom_one_sided_irka, Bin tf ''-'' lti] \<and>
   list_all (\<lambda>sys. \<not> mentions rom_tsia sys \<and> \<not> mentions rom_tf_irka sys)
       [lti, rom_bt, Bin lti ''-'' rom_bt, rom_lqgbt, Bin lti ''-'' rom_lqgbt,
        rom_brbt, Bin lti ''-'' rom_brbt, rom_irka, Bin lti ''-'' rom_irka,
        rom_one_sided_irka, Bin lti ''-'' rom_one_sided_irka, Bin tf ''-'' lti] \<and>
   \<not> mag_plotted (heat_notebook s) rom_tf_irka \<and>
   \<not> mag_plotted (heat_notebook s) (Bin tf ''-'' rom_tf_irka) \<and>
   \<not> mag_plotted (heat_notebook s) rom_tsia \<and>
   \<not> mag_plotted (heat_notebook s) (Bin lti ''-'' rom_tsia)"
proof -
  have five: "list_all (\<lambda>rom.
       norm_reported (heat_notebook s) (Bin lti ''-'' rom) ''h2_norm'' \<and>
       norm_reported (heat_notebook s) (Bin lti ''-'' rom) ''hinf_norm'' = s \<and>
       norm_reported (heat_notebook s) (Bin lti ''-'' rom) ''hankel_norm'' \<and>
       mag_plotted (heat_notebook s) lti \<and>
       mag_plotted (heat_notebook s) rom \<and>
       mag_plotted (heat_notebook s) (Bin lti ''-'' rom))
     [rom_bt, rom_lqgbt, rom_brbt, rom_irka, rom_one_sided_irka]"
    by (simp add: norm_reported_figure heat_mag_plots err_defs printed_list
        relative_figure_def system_defs figure_defs)
  have tf1: "filter (mentions rom_tf_irka) (printed (heat_notebook s)) =
     [Bin tf_irka_h2_error ''/'' tf_h2_norm]"
    by (rule printed_tf_irka)
  have tf2: "tf_irka_h2_error =
     meth np ''sqrt''
       [Bin (Bin (Item (Call (Attr spint ''quad'')
                          [integrand (Bin tf ''-'' rom_tf_irka), Neg (Attr np ''inf''),
                           Attr np ''inf'']
                          [(''epsabs'', Flt ''1e-16'')]) (Num 0)) ''/'' (Num 2))
            ''/'' (Attr np ''pi'')]"
    by (simp add: tf_irka_h2_error_def error_h2_def error_h2_quad_def err_tf_irka_def)
  have no_norm: "\<not> norm_reported (heat_notebook s) (Bin tf ''-'' rom_tf_irka) n"
    "\<not> norm_reported (heat_notebook s) (Bin lti ''-'' rom_tsia) n"
    by (simp_all add: norm_reported_figure printed_list relative_figure_def system_defs
        figure_defs)
  have tsia1: "rom_tsia =
      Call (Attr tsia_reductor ''reduce'') [rom0] [(''compute_errors'', Name ''True'')]"
    by (rule rom_tsia_def)
  have tsia2: "filter (mentions rom_tsia) (printed (heat_notebook s)) = []"
    using printed_tsia_free [of s] by (simp add: filter_empty_conv list_all_iff)
  have plots: "mag_plotted (heat_notebook s) sys =
     list_ex ((=) sys)
       [lti, rom_bt, Bin lti ''-'' rom_bt, rom_lqgbt, Bin lti ''-'' rom_lqgbt,
        rom_brbt, Bin lti ''-'' rom_brbt, rom_irka, Bin lti ''-'' rom_irka,
        rom_one_sided_irka, Bin lti ''-'' rom_one_sided_irka, Bin tf ''-'' lti]"
    unfolding heat_mag_plots err_defs by (rule refl)
  have free: "list_all (\<lambda>sys. \<not> mentions rom_tsia sys \<and> \<not> mentions rom_tf_irka sys)
       [lti, rom_bt, Bin lti ''-'' rom_bt, rom_lqgbt, Bin lti ''-'' rom_lqgbt,
        rom_brbt, Bin lti ''-'' rom_brbt, rom_irka, Bin lti ''-'' rom_irka,
        rom_one_sided_irka, Bin lti ''-'' rom_one_sided_irka, Bin tf ''-'' lti]"
    using plotted_reduce_free unfolding err_defs .
  have no_plot: "\<not> mag_plotted (heat_notebook s) rom_tf_irka"
    "\<not> mag_plotted (heat_notebook s) (Bin tf ''-'' rom_tf_irka)"
    "\<not> mag_plotted (heat_notebook s) rom_tsia"
    "\<not> mag_plotted (heat_notebook s) (Bin lti ''-'' rom_tsia)"
    by (simp_all add: heat_mag_plots err_defs system_defs)
  from five tf1 tf2 no_norm tsia1 tsia2 plots free no_plot show ?thesis by (intro conjI)
qed

end
